theory Spec2Isabelle
  imports Main
begin

section \<open>Data model of \<open>ca.go\<close>\<close>

text \<open>
  Go strings and byte slices are both character lists; \<open>string(b)\<close> and \<open>[]byte{}\<close> are
  the identity and the empty list. A Go call returning \<open>(value, error)\<close> is a pair whose second
  component is \<open>None\<close> for a nil error: the value component is kept also in the error case,
  because \<open>create\<close> reads it there. A pointer that may be nil is an \<open>option\<close>. The \<open>int\<close>
  fields and arguments (key size, validity) are only handed on, never computed with: they
  are integers.
\<close>

type_synonym bytes = string

type_synonym time_Time = int

text \<open>The six sentinel errors declared in \<open>ca.go\<close>; \<open>ErrOther\<close> stands for every error value
  that other packages create (storage failures, codec failures).\<close>

datatype err =
    ErrCAMissingInfo
  | ErrCAGenerateExists
  | ErrCALoadNotFound
  | ErrCertLoadNotFound
  | ErrCertRevoked
  | ErrParentCommonNameNotSpecified
  | ErrOther string

text \<open>Modelled from the spec: the constants \<open>storage.CreationTypeCA\<close> and
  \<open>storage.CreationTypeCertificate\<close>, which \<open>ca.go\<close> passes on and does not declare: the
  material is a CA's own, or that of a certificate the CA issues.\<close>

datatype CreationType = CreationTypeCA | CreationTypeCertificate

text \<open>RSA keys are opaque to \<open>ca.go\<close>: it only moves them around.\<close>

datatype rsa_PrivateKey = RsaPrivateKey bytes

datatype rsa_PublicKey = RsaPublicKey bytes

text \<open>Of an X.509 certificate the code reads \<open>SerialNumber\<close> (a \<open>*big.Int\<close>, an unbounded
  integer); of a certificate request \<open>Subject.CommonName\<close>; of a certificate list
  \<open>TBSCertList.RevokedCertificates\<close>. The rest of each object is an opaque payload.\<close>

record x509_Certificate =
  SerialNumber :: int
  cert_Raw :: bytes

record x509_CertificateRequest =
  Subject_CommonName :: string
  csr_Raw :: bytes

record pkix_RevokedCertificate =
  SerialNumber :: int
  RevocationTime :: time_Time

record pkix_CertificateList =
  TBSCertList_RevokedCertificates :: "pkix_RevokedCertificate list"
  crl_Raw :: bytes

record Identity =
  Organization :: string
  OrganizationalUnit :: string
  Country :: string
  Locality :: string
  Province :: string
  EmailAddresses :: string
  DNSNames :: "string list"
  Intermediate :: bool
  KeyBitSize :: int
  Valid :: int

record CAData =
  CRL :: string
  Certificate :: string
  CSR :: string
  PrivateKey :: string
  PublicKey :: string
  privateKey :: rsa_PrivateKey
  certificate :: "x509_Certificate option"
  publicKey :: rsa_PublicKey
  csr :: "x509_CertificateRequest option"
  crl :: "pkix_CertificateList option"
  IsIntermediate :: bool

text \<open>Modelled from the spec: the receiver type \<open>CA\<close>, the result type \<open>Certificate\<close> and
  \<open>key.KeysData\<close>, which \<open>ca.go\<close> uses and does not declare. A CA is its common name and
  its data; a certificate holds its key pair, request and signed certificate, as objects
  and as text, and the issuing CA's certificate; a key pair is a private and a public key.
  The fields are the ones \<open>ca.go\<close> reads and writes.\<close>

record CA =
  CommonName :: string
  Data :: CAData

record KeysData =
  Key :: rsa_PrivateKey
  PublicKey :: rsa_PublicKey

record Certificate =
  commonName :: string
  Certificate :: string
  CSR :: string
  PrivateKey :: string
  PublicKey :: string
  CACertificate :: string
  privateKey :: rsa_PrivateKey
  publicKey :: rsa_PublicKey
  csr :: x509_CertificateRequest
  certificate :: "x509_Certificate option"
  caCertificate :: "x509_Certificate option"

text \<open>Go's zero values: \<open>CAData{}\<close> and the named result \<open>certificate Certificate\<close>.\<close>

definition CAData_zero :: CAData where
  "CAData_zero =
     \<lparr>CAData.CRL = [], CAData.Certificate = [], CAData.CSR = [], CAData.PrivateKey = [],
      CAData.PublicKey = [], CAData.privateKey = RsaPrivateKey [], CAData.certificate = None,
      CAData.publicKey = RsaPublicKey [], CAData.csr = None, CAData.crl = None,
      CAData.IsIntermediate = False\<rparr>"

definition CertificateRequest_zero :: x509_CertificateRequest where
  "CertificateRequest_zero = \<lparr>Subject_CommonName = [], csr_Raw = []\<rparr>"

definition Certificate_zero :: Certificate where
  "Certificate_zero =
     \<lparr>Certificate.commonName = [], Certificate.Certificate = [], Certificate.CSR = [],
      Certificate.PrivateKey = [], Certificate.PublicKey = [], Certificate.CACertificate = [],
      Certificate.privateKey = RsaPrivateKey [], Certificate.publicKey = RsaPublicKey [],
      Certificate.csr = CertificateRequest_zero, Certificate.certificate = None,
      Certificate.caCertificate = None\<rparr>"

definition certExtension :: string where "certExtension = ''.crt''"

definition csrExtension :: string where "csrExtension = ''.csr''"

definition crlExtension :: string where "crlExtension = ''.crl''"

section \<open>The collaborators of \<open>ca.go\<close>\<close>

text \<open>
  \<open>ca.go\<close> calls the packages \<open>storage\<close>, \<open>key\<close> and \<open>cert\<close>, the package-level function
  \<open>List\<close>, and the standard library (\<open>x509\<close>, \<open>pem\<close>, \<open>filepath\<close>, \<open>os\<close>, \<open>time\<close>). None of
  them is part of \<open>ca.go\<close>; each is a field of the environment, and every function of the
  model takes the environment as its first argument. \<open>'w\<close> is the state of the world outside
  the process: the file system under \<open>$CAPATH\<close>, the process environment, the clock, the
  source of randomness. A collaborator that only reads takes the world; one that writes
  returns the new world as well. Sections 2 and 6 of the spec say which is which: existence
  checks, listing, loading and parsing read; making directories, generating keys, building
  and signing certificates, requests and lists, and copying write. (\<open>List\<close> is the field
  \<open>ListCAs\<close>; \<open>os.Stat\<close> with \<open>errors.Is(err, fs.ErrNotExist)\<close> is \<open>os_Stat_IsNotExist\<close>.)
\<close>

record 'w env =
  CAStorage :: "string \<Rightarrow> 'w \<Rightarrow> bool"
  MakeFolder :: "string \<Rightarrow> string \<Rightarrow> 'w \<Rightarrow> err option \<times> 'w"
  LoadFile :: "string list \<Rightarrow> 'w \<Rightarrow> bytes \<times> err option"
  CopyFile :: "string \<Rightarrow> string \<Rightarrow> 'w \<Rightarrow> err option \<times> 'w"
  CreateKeys :: "string \<Rightarrow> string \<Rightarrow> CreationType \<Rightarrow> int \<Rightarrow> 'w
                 \<Rightarrow> (KeysData \<times> err option) \<times> 'w"
  LoadPrivateKey :: "bytes \<Rightarrow> rsa_PrivateKey option \<times> err option"
  LoadPublicKey :: "bytes \<Rightarrow> rsa_PublicKey option \<times> err option"
  CreateRootCert :: "string \<Rightarrow> string \<Rightarrow> string \<Rightarrow> string \<Rightarrow> string \<Rightarrow> string \<Rightarrow> string
                 \<Rightarrow> string \<Rightarrow> int \<Rightarrow> string list \<Rightarrow> rsa_PrivateKey \<Rightarrow> rsa_PublicKey
                 \<Rightarrow> CreationType \<Rightarrow> 'w \<Rightarrow> (bytes \<times> err option) \<times> 'w"
  CreateCACert :: "string \<Rightarrow> string \<Rightarrow> string \<Rightarrow> string \<Rightarrow> string \<Rightarrow> string \<Rightarrow> string
                 \<Rightarrow> string \<Rightarrow> int \<Rightarrow> string list \<Rightarrow> rsa_PrivateKey \<Rightarrow> rsa_PrivateKey option
                 \<Rightarrow> x509_Certificate option \<Rightarrow> rsa_PublicKey
                 \<Rightarrow> CreationType \<Rightarrow> 'w \<Rightarrow> (bytes \<times> err option) \<times> 'w"
  LoadParentCACertificate :: "string \<Rightarrow> 'w
                 \<Rightarrow> x509_Certificate option \<times> rsa_PrivateKey option \<times> err option"
  RevokeCertificate :: "string \<Rightarrow> pkix_RevokedCertificate list \<Rightarrow> x509_Certificate option
                 \<Rightarrow> rsa_PrivateKey \<Rightarrow> 'w \<Rightarrow> (bytes \<times> err option) \<times> 'w"
  LoadCSR :: "bytes \<Rightarrow> x509_CertificateRequest option \<times> err option"
  LoadCert :: "bytes \<Rightarrow> x509_Certificate option \<times> err option"
  LoadCRL :: "bytes \<Rightarrow> pkix_CertificateList option \<times> err option"
  CASignCSR :: "string \<Rightarrow> x509_CertificateRequest \<Rightarrow> x509_Certificate option
                 \<Rightarrow> rsa_PrivateKey \<Rightarrow> int \<Rightarrow> CreationType \<Rightarrow> 'w \<Rightarrow> (bytes \<times> err option) \<times> 'w"
  CreateCSR :: "string \<Rightarrow> string \<Rightarrow> string \<Rightarrow> string \<Rightarrow> string \<Rightarrow> string \<Rightarrow> string
                 \<Rightarrow> string \<Rightarrow> string list \<Rightarrow> rsa_PrivateKey
                 \<Rightarrow> CreationType \<Rightarrow> 'w \<Rightarrow> (bytes \<times> err option) \<times> 'w"
  ListCAs :: "'w \<Rightarrow> string list"
  x509_ParseCertificate :: "bytes \<Rightarrow> x509_Certificate option \<times> err option"
  x509_ParseCRL :: "bytes \<Rightarrow> pkix_CertificateList option \<times> err option"
  x509_ParseCertificateRequest :: "bytes \<Rightarrow> x509_CertificateRequest option \<times> err option"
  pem_Encode :: "string \<Rightarrow> bytes \<Rightarrow> string"
  filepath_Join :: "string list \<Rightarrow> string"
  os_Getenv :: "string \<Rightarrow> 'w \<Rightarrow> string"
  os_Stat_IsNotExist :: "string \<Rightarrow> 'w \<Rightarrow> bool"
  time_Now :: "'w \<Rightarrow> time_Time"

text \<open>The idiom \<open>if b, err = storage.LoadFile(...); err != nil { b = []byte{} }\<close>.\<close>

definition orEmpty :: "bytes \<times> err option \<Rightarrow> bytes" where
  "orEmpty r = (case r of (b, None) \<Rightarrow> b | (b, Some e) \<Rightarrow> [])"

section \<open>\<open>create\<close>\<close>

text \<open>
  \<open>func (c *CA) create(commonName, parentCommonName string, id Identity) error\<close>.
  The result is the returned error, the receiver after the call and the world after the
  call. The certificate is built in one of two branches that join at \<open>if err != nil\<close>
  (line 178); the intermediate branch has two returns of its own (\<open>Inl\<close>). A local
  variable whose name is also the name of a field carries a prime.
\<close>

definition create ::
  "'w env \<Rightarrow> string \<Rightarrow> string \<Rightarrow> Identity \<Rightarrow> CA \<Rightarrow> 'w \<Rightarrow> err option \<times> CA \<times> 'w" where
  "create env commonName' parentCommonName id' c w =
    (let caData = CAData_zero in
     if CAStorage env commonName' w then (Some ErrCAGenerateExists, c, w)
     else
       let caDir = filepath_Join env [commonName', ''ca''];
           caCertsDir = filepath_Join env [commonName', ''certs'']
       in
       if Organization id' = [] \<or> OrganizationalUnit id' = [] \<or> Country id' = []
          \<or> Locality id' = [] \<or> Province id' = []
       then (Some ErrCAMissingInfo, c, w)
       else
         case MakeFolder env (os_Getenv env ''CAPATH'' w) caDir w of
           (Some e, w1) \<Rightarrow> (Some e, c, w1)
         | (None, w1) \<Rightarrow>
         (case MakeFolder env (os_Getenv env ''CAPATH'' w1) caCertsDir w1 of
           (Some e, w2) \<Rightarrow> (Some e, c, w2)
         | (None, w2) \<Rightarrow>
         (case CreateKeys env commonName' commonName' CreationTypeCA (KeyBitSize id') w2 of
           ((caKeys, Some e), w3) \<Rightarrow> (Some e, c, w3)
         | ((caKeys, None), w3) \<Rightarrow>
           let keyString = orEmpty (LoadFile env [caDir, ''key.pem''] w3);
               publicKeyString = orEmpty (LoadFile env [caCertsDir, ''key.pub''] w3);
               privKey = Key caKeys;
               pubKey = KeysData.PublicKey caKeys;
               caData = caData\<lparr>CAData.privateKey := Key caKeys,
                               CAData.PrivateKey := keyString,
                               CAData.publicKey := KeysData.PublicKey caKeys,
                               CAData.PublicKey := publicKeyString\<rparr>
           in
           (case
              (if \<not> Intermediate id' then
                 (case CreateRootCert env commonName' commonName' (Country id') (Province id')
                         (Locality id') (Organization id') (OrganizationalUnit id')
                         (EmailAddresses id') (Valid id') (DNSNames id') privKey pubKey
                         CreationTypeCA w3 of
                    ((certBytes, err), w4) \<Rightarrow>
                      Inr (caData\<lparr>IsIntermediate := False\<rparr>, certBytes, err, w4))
               else if parentCommonName = [] then
                 Inl (Some ErrParentCommonNameNotSpecified, w3)
               else
                 (case LoadParentCACertificate env parentCommonName w3 of
                    (parentCertificate, parentPrivateKey, Some e) \<Rightarrow> Inl (None, w3)
                  | (parentCertificate, parentPrivateKey, None) \<Rightarrow>
                    (case CreateCACert env commonName' commonName' (Country id') (Province id')
                            (Locality id') (Organization id') (OrganizationalUnit id')
                            (EmailAddresses id') (Valid id') (DNSNames id') privKey
                            parentPrivateKey parentCertificate pubKey CreationTypeCA w3 of
                       ((certBytes, err), w4) \<Rightarrow>
                         Inr (caData\<lparr>IsIntermediate := True\<rparr>, certBytes, err, w4))))
            of
              Inl (r, w4) \<Rightarrow> (r, c, w4)
            | Inr (caData, certBytes, Some e, w4) \<Rightarrow> (Some e, c, w4)
            | Inr (caData, certBytes, None, w4) \<Rightarrow>
              let certificate' = fst (x509_ParseCertificate env certBytes);
                  certString = orEmpty (LoadFile env [caDir, commonName' @ certExtension] w4);
                  caData = caData\<lparr>CAData.certificate := certificate',
                                  CAData.Certificate := certString\<rparr>
              in
              (case RevokeCertificate env (CommonName c) [] certificate' privKey w4 of
                 ((crlBytes, err), w5) \<Rightarrow>
                   let caData =
                         (case err of
                            None \<Rightarrow> caData
                          | Some e \<Rightarrow>
                            (case x509_ParseCRL env crlBytes of
                               (crl', Some e') \<Rightarrow> caData\<lparr>CAData.crl := crl'\<rparr>
                             | (crl', None) \<Rightarrow> caData));
                       crlString = orEmpty (LoadFile env [caDir, commonName' @ crlExtension] w5);
                       c = c\<lparr>Data := (Data c)\<lparr>CAData.CRL := crlString\<rparr>\<rparr>;
                       c = c\<lparr>Data := caData\<rparr>
                   in (None, c, w5))))))"

section \<open>\<open>loadCA\<close>\<close>

text \<open>
  A function that dereferences a pointer it got from a collaborator panics when the pointer
  is nil: \<open>Panic\<close>. Otherwise it returns: \<open>Return\<close>.
\<close>

datatype 'a outcome = Panic | Return 'a

text \<open>
  \<open>func (c *CA) loadCA(commonName string) error\<close>: the returned error and the receiver after
  the call. \<open>loadCA\<close> only reads the world. Each of the three optional blocks either returns
  its parse error (\<open>Inl\<close>) or goes on with the data read so far (\<open>Inr\<close>).
\<close>

definition loadCA :: "'w env \<Rightarrow> string \<Rightarrow> CA \<Rightarrow> 'w \<Rightarrow> (err option \<times> CA) outcome" where
  "loadCA env commonName' c w =
    (let caData = CAData_zero;
         caDir = filepath_Join env [commonName', ''ca'']
     in
     if \<not> CAStorage env commonName' w then Return (Some ErrCALoadNotFound, c)
     else
       case LoadFile env [caDir, ''key.pem''] w of
         (keyString, Some loadErr) \<Rightarrow> Return (Some loadErr, c)
       | (keyString, None) \<Rightarrow>
       (case LoadPrivateKey env keyString of
         (privateKey', Some e) \<Rightarrow> Return (Some e, c)
       | (None, None) \<Rightarrow> Panic
       | (Some privateKey', None) \<Rightarrow>
         let caData = caData\<lparr>CAData.PrivateKey := keyString,
                             CAData.privateKey := privateKey'\<rparr>
         in
       (case LoadFile env [caDir, ''key.pub''] w of
         (publicKeyString, Some loadErr) \<Rightarrow> Return (Some loadErr, c)
       | (publicKeyString, None) \<Rightarrow>
       (case LoadPublicKey env publicKeyString of
         (publicKey', Some e) \<Rightarrow> Return (Some e, c)
       | (None, None) \<Rightarrow> Panic
       | (Some publicKey', None) \<Rightarrow>
         let caData = caData\<lparr>CAData.PublicKey := publicKeyString,
                             CAData.publicKey := publicKey'\<rparr>
         in
       (case
          (case LoadFile env [caDir, commonName' @ csrExtension] w of
             (csrString, Some loadErr) \<Rightarrow> Inr caData
           | (csrString, None) \<Rightarrow>
             (case LoadCSR env csrString of
                (csr', Some e) \<Rightarrow> Inl e
              | (csr', None) \<Rightarrow> Inr (caData\<lparr>CAData.CSR := csrString, CAData.csr := csr'\<rparr>)))
        of
          Inl e \<Rightarrow> Return (Some e, c)
        | Inr caData \<Rightarrow>
       (case
          (case LoadFile env [caDir, commonName' @ certExtension] w of
             (certString, Some loadErr) \<Rightarrow> Inr caData
           | (certString, None) \<Rightarrow>
             (case LoadCert env certString of
                (cert', Some e) \<Rightarrow> Inl e
              | (cert', None) \<Rightarrow>
                  Inr (caData\<lparr>CAData.Certificate := certString, CAData.certificate := cert'\<rparr>)))
        of
          Inl e \<Rightarrow> Return (Some e, c)
        | Inr caData \<Rightarrow>
       (case
          (case LoadFile env [caDir, CommonName c @ crlExtension] w of
             (crlString, Some loadErr) \<Rightarrow> Inr caData
           | (crlString, None) \<Rightarrow>
             (case LoadCRL env crlString of
                (crl', Some e) \<Rightarrow> Inl e
              | (crl', None) \<Rightarrow> Inr (caData\<lparr>CAData.CRL := crlString, CAData.crl := crl'\<rparr>)))
        of
          Inl e \<Rightarrow> Return (Some e, c)
        | Inr caData \<Rightarrow> Return (None, c\<lparr>Data := caData\<rparr>))))))))"

section \<open>\<open>signCSR\<close>\<close>

text \<open>
  The loop over \<open>knownCAs\<close> (lines 320 to 332) and the final \<open>return certificate, err\<close>:
  at the first known CA whose name is the certificate's common name the certificate file is
  copied and the loop ends; \<open>err\<close> is nil when the loop is entered.
\<close>

fun signCSR_knownCAs ::
  "'w env \<Rightarrow> CA \<Rightarrow> Certificate \<Rightarrow> string list \<Rightarrow> 'w \<Rightarrow> (Certificate \<times> err option) \<times> 'w" where
  "signCSR_knownCAs env c certificate' [] w = ((certificate', None), w)"
| "signCSR_knownCAs env c certificate' (knownCA # knownCAs) w =
    (if knownCA = Certificate.commonName certificate' then
       let srcPath = filepath_Join env
             [CommonName c, ''certs'', Certificate.commonName certificate',
              Certificate.commonName certificate' @ certExtension];
           destPath = filepath_Join env
             [Certificate.commonName certificate', ''ca'',
              Certificate.commonName certificate' @ certExtension]
       in
       (case CopyFile env srcPath destPath w of
          (Some e, w1) \<Rightarrow> ((certificate', Some e), w1)
        | (None, w1) \<Rightarrow> ((certificate', None), w1))
     else signCSR_knownCAs env c certificate' knownCAs w)"

text \<open>
  \<open>func (c *CA) signCSR(csr x509.CertificateRequest, valid int)
  (certificate Certificate, err error)\<close>: the two results and the world after the call.
\<close>

definition signCSR ::
  "'w env \<Rightarrow> x509_CertificateRequest \<Rightarrow> int \<Rightarrow> CA \<Rightarrow> 'w \<Rightarrow> (Certificate \<times> err option) \<times> 'w" where
  "signCSR env csr' valid c w =
    (let certificate' = Certificate_zero
           \<lparr>Certificate.commonName := Subject_CommonName csr',
            Certificate.csr := csr',
            Certificate.caCertificate := CAData.certificate (Data c),
            Certificate.CACertificate := CAData.Certificate (Data c)\<rparr>
     in
     case
       (case LoadFile env [CommonName c, ''cert'',
                           Certificate.commonName certificate' @ csrExtension] w of
          (csrString, Some e) \<Rightarrow> Inr certificate'
        | (csrString, None) \<Rightarrow>
          (case LoadCSR env csrString of
             (parsed, Some e) \<Rightarrow> Inl e
           | (parsed, None) \<Rightarrow> Inr (certificate'\<lparr>Certificate.CSR := csrString\<rparr>)))
     of
       Inl e \<Rightarrow> ((certificate', Some e), w)
     | Inr certificate' \<Rightarrow>
     (case CASignCSR env (CommonName c) csr' (CAData.certificate (Data c))
             (CAData.privateKey (Data c)) valid CreationTypeCertificate w of
       ((certBytes, Some e), w1) \<Rightarrow> ((certificate', Some e), w1)
     | ((certBytes, None), w1) \<Rightarrow>
       let certRow = pem_Encode env ''CERTIFICATE'' certBytes;
           certificate' = certificate'\<lparr>Certificate.Certificate := certRow\<rparr>
       in
     (case x509_ParseCertificate env certBytes of
       (cert', Some e) \<Rightarrow> ((certificate', Some e), w1)
     | (cert', None) \<Rightarrow>
       let certificate' = certificate'\<lparr>Certificate.certificate := cert'\<rparr>;
           knownCAs = ListCAs env w1
       in signCSR_knownCAs env c certificate' knownCAs w1)))"

section \<open>\<open>issueCertificate\<close>\<close>

text \<open>
  \<open>func (c *CA) issueCertificate(commonName string, id Identity)
  (certificate Certificate, err error)\<close>. The error of \<open>x509.ParseCertificateRequest\<close> is
  dropped and its pointer dereferenced (line 381).
\<close>

definition issueCertificate ::
  "'w env \<Rightarrow> string \<Rightarrow> Identity \<Rightarrow> CA \<Rightarrow> 'w \<Rightarrow> (Certificate \<times> err option) outcome \<times> 'w" where
  "issueCertificate env commonName' id' c w =
    (let caCertsDir = filepath_Join env [CommonName c, ''certs''];
         certificate' = Certificate_zero
           \<lparr>Certificate.CACertificate := CAData.Certificate (Data c),
            Certificate.caCertificate := CAData.certificate (Data c)\<rparr>
     in
     case CreateKeys env (CommonName c) commonName' CreationTypeCertificate (KeyBitSize id') w of
       ((certKeys, Some e), w1) \<Rightarrow> (Return (certificate', Some e), w1)
     | ((certKeys, None), w1) \<Rightarrow>
       let keyString = orEmpty (LoadFile env [caCertsDir, commonName', ''key.pem''] w1);
           publicKeyString = orEmpty (LoadFile env [caCertsDir, commonName', ''key.pub''] w1);
           privKey = Key certKeys;
           pubKey = KeysData.PublicKey certKeys;
           certificate' = certificate'
             \<lparr>Certificate.privateKey := privKey, Certificate.PrivateKey := keyString,
              Certificate.publicKey := pubKey, Certificate.PublicKey := publicKeyString\<rparr>
       in
     (case CreateCSR env (CommonName c) commonName' (Country id') (Province id') (Locality id')
             (Organization id') (OrganizationalUnit id') (EmailAddresses id') (DNSNames id')
             privKey CreationTypeCertificate w1 of
       ((csrBytes, Some e), w2) \<Rightarrow> (Return (certificate', Some e), w2)
     | ((csrBytes, None), w2) \<Rightarrow>
       let csr' = fst (x509_ParseCertificateRequest env csrBytes);
           csrString =
             orEmpty (LoadFile env [caCertsDir, commonName', commonName' @ csrExtension] w2)
       in
     (case csr' of
       None \<Rightarrow> (Panic, w2)
     | Some csr' \<Rightarrow>
       let certificate' = certificate'\<lparr>Certificate.csr := csr', Certificate.CSR := csrString\<rparr>
       in
     (case CASignCSR env (CommonName c) csr' (CAData.certificate (Data c))
             (CAData.privateKey (Data c)) (Valid id') CreationTypeCertificate w2 of
       ((certBytes, Some e), w3) \<Rightarrow> (Return (certificate', Some e), w3)
     | ((certBytes, None), w3) \<Rightarrow>
       let certRow = pem_Encode env ''CERTIFICATE'' certBytes;
           certificate' = certificate'\<lparr>Certificate.Certificate := certRow\<rparr>
       in
     (case x509_ParseCertificate env certBytes of
       (cert', Some e) \<Rightarrow> (Return (certificate', Some e), w3)
     | (cert', None) \<Rightarrow>
         (Return (certificate'\<lparr>Certificate.certificate := cert'\<rparr>, None), w3))))))"

section \<open>\<open>loadCertificate\<close>\<close>


section \<open>\<open>revokeCertificate\<close>\<close>

text \<open>\<open>(*big.Int).String()\<close>: the decimal digits, after a minus sign for a negative number.\<close>

definition digit_char :: "nat \<Rightarrow> char" where
  "digit_char d = char_of (48 + d)"

fun nat_String :: "nat \<Rightarrow> string" where
  "nat_String n =
     (if n < 10 then [digit_char n] else nat_String (n div 10) @ [digit_char (n mod 10)])"

declare nat_String.simps [simp del]

definition big_String :: "int \<Rightarrow> string" where
  "big_String i = (if i < 0 then CHR ''-'' # nat_String (nat (- i)) else nat_String (nat i))"

text \<open>Modelled from the spec: the method \<open>GoCRL\<close> of \<open>CA\<close>, which \<open>ca.go\<close> calls and does not
  define. The spec calls its result the CA's current, in-memory CRL; the test reads the
  same list as \<open>RootCA.Data.crl\<close>.\<close>

definition GoCRL :: "CA \<Rightarrow> pkix_CertificateList option" where
  "GoCRL c = CAData.crl (Data c)"

text \<open>The loop of lines 461 to 465: \<open>True\<close> when it returns \<open>ErrCertRevoked\<close>.\<close>

fun serial_listed :: "pkix_RevokedCertificate list \<Rightarrow> x509_Certificate \<Rightarrow> bool" where
  "serial_listed [] certificate' = False"
| "serial_listed (serialNumber # rest) certificate' =
    (if big_String (pkix_RevokedCertificate.SerialNumber serialNumber)
          = big_String (x509_Certificate.SerialNumber certificate')
     then True
     else serial_listed rest certificate')"

text \<open>
  \<open>func (c *CA) revokeCertificate(certificate *x509.Certificate) error\<close>, for a certificate
  pointer and serial numbers that are not nil (as in every parsed certificate and list): the
  returned error, the receiver and the world after the call.
\<close>

definition revokeCertificate ::
  "'w env \<Rightarrow> x509_Certificate \<Rightarrow> CA \<Rightarrow> 'w \<Rightarrow> err option \<times> CA \<times> 'w" where
  "revokeCertificate env certificate' c w =
    (let caDir = filepath_Join env [CommonName c, ''ca''];
         currentCRL = GoCRL c
     in
     case
       (case currentCRL of
          None \<Rightarrow> Inr []
        | Some currentCRL \<Rightarrow>
            if serial_listed (TBSCertList_RevokedCertificates currentCRL) certificate'
            then Inl ErrCertRevoked
            else Inr (TBSCertList_RevokedCertificates currentCRL))
     of
       Inl e \<Rightarrow> (Some e, c, w)
     | Inr revokedCerts \<Rightarrow>
       let newCertRevoke =
             \<lparr>pkix_RevokedCertificate.SerialNumber = x509_Certificate.SerialNumber certificate',
              RevocationTime = time_Now env w\<rparr>;
           revokedCerts = revokedCerts @ [newCertRevoke]
       in
     (case RevokeCertificate env (CommonName c) revokedCerts (CAData.certificate (Data c))
             (CAData.privateKey (Data c)) w of
       ((crlByte, Some e), w1) \<Rightarrow> (Some e, c, w1)
     | ((crlByte, None), w1) \<Rightarrow>
     (case x509_ParseCRL env crlByte of
       (crl', Some e) \<Rightarrow> (Some e, c, w1)
     | (crl', None) \<Rightarrow>
       let c = c\<lparr>Data := (Data c)\<lparr>CAData.crl := crl'\<rparr>\<rparr>;
           crlString = orEmpty (LoadFile env [caDir, CommonName c @ crlExtension] w1);
           c = c\<lparr>Data := (Data c)\<lparr>CAData.CRL := crlString\<rparr>\<rparr>
       in (None, c, w1))))"

section \<open>Notions of the specification\<close>

text \<open>
  The rule of section 4.2 of the spec for an optional artifact, in the spec's words: the
  absence of the file is tolerated and leaves the field empty; a parse failure of a file
  that is present is fatal. The result is the fatal error, or the text and the parsed
  object that go into the fields.
\<close>

definition optional_artifact ::
  "bytes \<times> err option \<Rightarrow> (bytes \<Rightarrow> 'a option \<times> err option) \<Rightarrow> err + (string \<times> 'a option)" where
  "optional_artifact file parse =
     (case file of
        (b, Some loadErr) \<Rightarrow> Inr ([], None)
      | (b, None) \<Rightarrow>
        (case parse b of
           (p, Some e) \<Rightarrow> Inl e
         | (p, None) \<Rightarrow> Inr (b, p)))"

text \<open>The revoked-entry list of a CA's current CRL; a CA without a CRL has no entry.\<close>

definition revoked_entries :: "CA \<Rightarrow> pkix_RevokedCertificate list" where
  "revoked_entries c =
     (case GoCRL c of None \<Rightarrow> [] | Some currentCRL \<Rightarrow> TBSCertList_RevokedCertificates currentCRL)"

text \<open>A sequence of revoke operations on one CA, one certificate after the other, whatever
  each returns; the first component counts the operations that returned nil.\<close>

fun revokeAll :: "'w env \<Rightarrow> x509_Certificate list \<Rightarrow> CA \<Rightarrow> 'w \<Rightarrow> nat \<times> CA \<times> 'w" where
  "revokeAll env [] c w = (0, c, w)"
| "revokeAll env (x # xs) c w =
     (case revokeCertificate env x c w of
        (r, c1, w1) \<Rightarrow>
          (case revokeAll env xs c1 w1 of
             (n, c2, w2) \<Rightarrow> ((if r = None then Suc n else n), c2, w2)))"

text \<open>
  Two contracts of the collaborators, from section 6 of the spec. The codec: a certificate
  list that \<open>cert.RevokeCertificate\<close> built without error and \<open>x509.ParseCRL\<close> parsed
  without error holds the entries it was built from. The store: a name is known once
  \<open>MakeFolder\<close> has made its \<open>ca\<close> directory under the base directory, and the operations
  that \<open>create\<close> performs never make a known name unknown (no CA is ever deleted).
\<close>

definition crl_codec_roundtrip :: "'w env \<Rightarrow> bool" where
  "crl_codec_roundtrip env \<longleftrightarrow>
     (\<forall>name rs p k w crlByte w1 crl'.
        RevokeCertificate env name rs p k w = ((crlByte, None), w1) \<longrightarrow>
        x509_ParseCRL env crlByte = (crl', None) \<longrightarrow>
        map_option TBSCertList_RevokedCertificates crl' = Some rs)"

definition store_keeps_CAs :: "'w env \<Rightarrow> bool" where
  "store_keeps_CAs env \<longleftrightarrow>
     (\<forall>name w w1.
        MakeFolder env (os_Getenv env ''CAPATH'' w) (filepath_Join env [name, ''ca'']) w = (None, w1)
        \<longrightarrow> CAStorage env name w1) \<and>
     (\<forall>name base dir w.
        CAStorage env name w \<longrightarrow> CAStorage env name (snd (MakeFolder env base dir w))) \<and>
     (\<forall>name a b t n w.
        CAStorage env name w \<longrightarrow> CAStorage env name (snd (CreateKeys env a b t n w))) \<and>
     (\<forall>name a1 a2 a3 a4 a5 a6 a7 a8 a9 a10 a11 a12 a13 w.
        CAStorage env name w \<longrightarrow>
        CAStorage env name
          (snd (CreateRootCert env a1 a2 a3 a4 a5 a6 a7 a8 a9 a10 a11 a12 a13 w))) \<and>
     (\<forall>name a1 a2 a3 a4 a5 a6 a7 a8 a9 a10 a11 a12 a13 a14 a15 w.
        CAStorage env name w \<longrightarrow>
        CAStorage env name
          (snd (CreateCACert env a1 a2 a3 a4 a5 a6 a7 a8 a9 a10 a11 a12 a13 a14 a15 w))) \<and>
     (\<forall>name a rs p k w.
        CAStorage env name w \<longrightarrow> CAStorage env name (snd (RevokeCertificate env a rs p k w)))"

section \<open>A reference environment\<close>

text \<open>
  The theorems below hold for every environment. To run the model on concrete inputs, this
  section builds one environment: a store in memory with the layout of section 6 of the
  spec, and codecs whose encodings are readable text. It is kept as small as the layout
  allows.
\<close>

record world =
  CAPATH :: string
  dirs :: "string list"
  files :: "(string \<times> bytes) list"
  now :: int
  serials :: int

text \<open>Modelled from the spec: \<open>filepath.Join\<close>, which is not part of \<open>ca.go\<close>; the empty
  elements are dropped and the others joined with a slash (no cleaning of dots).\<close>

fun slashes :: "string list \<Rightarrow> string" where
  "slashes [] = []"
| "slashes [p] = p"
| "slashes (p # q # ps) = p @ CHR ''/'' # slashes (q # ps)"

definition ref_Join :: "string list \<Rightarrow> string" where
  "ref_Join ps = slashes (filter (\<lambda>p. p \<noteq> []) ps)"

definition dirname :: "string \<Rightarrow> string" where
  "dirname p = rev (drop 1 (dropWhile (\<lambda>x. x \<noteq> CHR ''/'') (rev p)))"

fun after_prefix :: "string \<Rightarrow> string \<Rightarrow> string option" where
  "after_prefix [] s = Some s"
| "after_prefix (p # ps) [] = None"
| "after_prefix (p # ps) (x # xs) = (if p = x then after_prefix ps xs else None)"

definition write_file :: "string \<Rightarrow> bytes \<Rightarrow> world \<Rightarrow> world" where
  "write_file path b w = w\<lparr>files := (path, b) # files w\<rparr>"

definition make_dir :: "string \<Rightarrow> world \<Rightarrow> world" where
  "make_dir path w = w\<lparr>dirs := path # dirs w\<rparr>"

text \<open>Modelled from the spec: the package \<open>storage\<close>, which is not part of \<open>ca.go\<close>. A name is
  known to the store iff \<open><base>/<name>/ca\<close> exists; a file is read and written under the
  base directory; a copy fails when the source file or the target directory is missing.\<close>

definition ref_CAStorage :: "string \<Rightarrow> world \<Rightarrow> bool" where
  "ref_CAStorage name w = (ref_Join [CAPATH w, name, ''ca''] \<in> set (dirs w))"

definition ref_MakeFolder :: "string \<Rightarrow> string \<Rightarrow> world \<Rightarrow> err option \<times> world" where
  "ref_MakeFolder base dir w = (None, make_dir (ref_Join [base, dir]) w)"

definition ref_LoadFile :: "string list \<Rightarrow> world \<Rightarrow> bytes \<times> err option" where
  "ref_LoadFile parts w =
     (case map_of (files w) (ref_Join (CAPATH w # parts)) of
        None \<Rightarrow> ([], Some (ErrOther ''no such file''))
      | Some b \<Rightarrow> (b, None))"

definition ref_CopyFile :: "string \<Rightarrow> string \<Rightarrow> world \<Rightarrow> err option \<times> world" where
  "ref_CopyFile src dst w =
     (case map_of (files w) (ref_Join [CAPATH w, src]) of
        None \<Rightarrow> (Some (ErrOther ''no such file''), w)
      | Some b \<Rightarrow>
          if dirname (ref_Join [CAPATH w, dst]) \<in> set (dirs w)
          then (None, write_file (ref_Join [CAPATH w, dst]) b w)
          else (Some (ErrOther ''no such directory''), w))"

text \<open>Modelled from the spec: the package-level function \<open>List\<close>, which is not part of
  \<open>ca.go\<close>: the first-level subdirectories of the base directory.\<close>

definition ref_ListCAs :: "world \<Rightarrow> string list" where
  "ref_ListCAs w =
     remdups (concat (map
       (\<lambda>d. case after_prefix (CAPATH w @ ''/'') d of
              None \<Rightarrow> []
            | Some r \<Rightarrow> [takeWhile (\<lambda>x. x \<noteq> CHR ''/'') r])
       (dirs w)))"

text \<open>Modelled from the spec: \<open>pem.Encode\<close> and the PEM side of the loaders, which are not
  part of \<open>ca.go\<close>: a block is its type, a colon, and its bytes.\<close>

definition ref_pem_Encode :: "string \<Rightarrow> bytes \<Rightarrow> string" where
  "ref_pem_Encode t b = t @ CHR '':'' # b"

definition pem_Decode :: "string \<Rightarrow> string \<Rightarrow> bytes option" where
  "pem_Decode t s = after_prefix (t @ '':'') s"

text \<open>Modelled from the spec: the package \<open>key\<close>, which is not part of \<open>ca.go\<close>. The key pair
  of a name is determined by the name; it is written to the \<open>ca\<close> directory of a CA or to
  the directory of the certificate under \<open>certs\<close>.\<close>

definition key_dir :: "string \<Rightarrow> string \<Rightarrow> CreationType \<Rightarrow> world \<Rightarrow> string" where
  "key_dir caName name t w =
     (case t of
        CreationTypeCA \<Rightarrow> ref_Join [CAPATH w, caName, ''ca'']
      | CreationTypeCertificate \<Rightarrow> ref_Join [CAPATH w, caName, ''certs'', name])"

definition ref_CreateKeys ::
  "string \<Rightarrow> string \<Rightarrow> CreationType \<Rightarrow> int \<Rightarrow> world \<Rightarrow> (KeysData \<times> err option) \<times> world" where
  "ref_CreateKeys caName name t bits w =
     (let dir = key_dir caName name t w;
          w1 = (case t of CreationTypeCA \<Rightarrow> w | CreationTypeCertificate \<Rightarrow> make_dir dir w);
          w2 = write_file (ref_Join [dir, ''key.pem''])
                 (ref_pem_Encode ''PRIVATE KEY'' (''priv-'' @ name)) w1;
          w3 = write_file (ref_Join [dir, ''key.pub''])
                 (ref_pem_Encode ''PUBLIC KEY'' (''pub-'' @ name)) w2
      in ((\<lparr>Key = RsaPrivateKey (''priv-'' @ name),
            KeysData.PublicKey = RsaPublicKey (''pub-'' @ name)\<rparr>, None), w3))"

definition ref_LoadPrivateKey :: "bytes \<Rightarrow> rsa_PrivateKey option \<times> err option" where
  "ref_LoadPrivateKey b =
     (case pem_Decode ''PRIVATE KEY'' b of
        None \<Rightarrow> (None, Some (ErrOther ''bad private key''))
      | Some k \<Rightarrow> (Some (RsaPrivateKey k), None))"

definition ref_LoadPublicKey :: "bytes \<Rightarrow> rsa_PublicKey option \<times> err option" where
  "ref_LoadPublicKey b =
     (case pem_Decode ''PUBLIC KEY'' b of
        None \<Rightarrow> (None, Some (ErrOther ''bad public key''))
      | Some k \<Rightarrow> (Some (RsaPublicKey k), None))"

text \<open>Modelled from the spec: the encodings of \<open>x509\<close>, which are not part of \<open>ca.go\<close>. An
  integer is a sign and as many digits \<open>1\<close> as its absolute value; a certificate is its
  serial number, a bar and its payload; a request is \<open>CSR\<close>, a bar and its common name; a
  certificate list is its entries, each a serial number, a comma, a time and a semicolon.\<close>

definition enc_int :: "int \<Rightarrow> string" where
  "enc_int i = (if i < 0 then CHR ''-'' else CHR ''+'') # replicate (nat \<bar>i\<bar>) CHR ''1''"

definition dec_int :: "string \<Rightarrow> int option" where
  "dec_int s =
     (case s of
        [] \<Rightarrow> None
      | x # xs \<Rightarrow>
          if list_all (\<lambda>y. y = CHR ''1'') xs then
            (if x = CHR ''+'' then Some (int (length xs))
             else if x = CHR ''-'' \<and> xs \<noteq> [] then Some (- int (length xs))
             else None)
          else None)"

definition ref_ParseCertificate :: "bytes \<Rightarrow> x509_Certificate option \<times> err option" where
  "ref_ParseCertificate der =
     (case (dec_int (takeWhile (\<lambda>x. x \<noteq> CHR ''|'') der),
            dropWhile (\<lambda>x. x \<noteq> CHR ''|'') der) of
        (Some i, bar # raw) \<Rightarrow>
          (Some \<lparr>x509_Certificate.SerialNumber = i, cert_Raw = raw\<rparr>, None)
      | (Some i, []) \<Rightarrow> (None, Some (ErrOther ''bad certificate''))
      | (None, rest) \<Rightarrow> (None, Some (ErrOther ''bad certificate'')))"

definition ref_ParseCertificateRequest ::
  "bytes \<Rightarrow> x509_CertificateRequest option \<times> err option" where
  "ref_ParseCertificateRequest der =
     (case after_prefix ''CSR|'' der of
        None \<Rightarrow> (None, Some (ErrOther ''bad certificate request''))
      | Some name \<Rightarrow> (Some \<lparr>Subject_CommonName = name, csr_Raw = der\<rparr>, None))"

definition enc_entry :: "pkix_RevokedCertificate \<Rightarrow> string" where
  "enc_entry r =
     enc_int (pkix_RevokedCertificate.SerialNumber r) @ CHR '','' #
     enc_int (RevocationTime r) @ '';''"

definition enc_crl :: "pkix_RevokedCertificate list \<Rightarrow> bytes" where
  "enc_crl rs = concat (map enc_entry rs)"

fun dec_crl ::
  "string \<Rightarrow> string \<Rightarrow> string option \<Rightarrow> pkix_RevokedCertificate list
   \<Rightarrow> pkix_RevokedCertificate list option" where
  "dec_crl [] cur ser acc = (if cur = [] \<and> ser = None then Some (rev acc) else None)"
| "dec_crl (x # xs) cur ser acc =
     (if x = CHR '','' then
        (case ser of
           None \<Rightarrow> dec_crl xs [] (Some (rev cur)) acc
         | Some s \<Rightarrow> None)
      else if x = CHR '';'' then
        (case ser of
           None \<Rightarrow> None
         | Some s \<Rightarrow>
           (case (dec_int s, dec_int (rev cur)) of
              (Some a, Some b) \<Rightarrow>
                dec_crl xs [] None
                  (\<lparr>pkix_RevokedCertificate.SerialNumber = a, RevocationTime = b\<rparr> # acc)
            | (Some a, None) \<Rightarrow> None
            | (None, b) \<Rightarrow> None))
      else dec_crl xs (x # cur) ser acc)"

definition ref_ParseCRL :: "bytes \<Rightarrow> pkix_CertificateList option \<times> err option" where
  "ref_ParseCRL der =
     (case dec_crl der [] None [] of
        None \<Rightarrow> (None, Some (ErrOther ''bad certificate list''))
      | Some rs \<Rightarrow> (Some \<lparr>TBSCertList_RevokedCertificates = rs, crl_Raw = der\<rparr>, None))"

text \<open>Modelled from the spec: the package \<open>cert\<close>, which is not part of \<open>ca.go\<close>. Serial
  numbers count up. A CA's certificate goes to its \<open>ca\<close> directory, an issued certificate
  and its request to its directory under the CA's \<open>certs\<close>, the list to the CA's \<open>ca\<close>
  directory. Signing needs the signer's certificate.\<close>

definition cert_dir :: "string \<Rightarrow> string \<Rightarrow> CreationType \<Rightarrow> world \<Rightarrow> string" where
  "cert_dir caName name t w = key_dir caName name t w"

definition issue ::
  "string \<Rightarrow> string \<Rightarrow> string \<Rightarrow> string \<Rightarrow> CreationType \<Rightarrow> world
   \<Rightarrow> (bytes \<times> err option) \<times> world" where
  "issue caName name subject issuer t w =
     (let serial = serials w + 1;
          der = enc_int serial @ CHR ''|'' # subject @ CHR ''<'' # issuer;
          dir = cert_dir caName name t w;
          w1 = (case t of CreationTypeCA \<Rightarrow> w | CreationTypeCertificate \<Rightarrow> make_dir dir w);
          w2 = write_file (ref_Join [dir, name @ certExtension])
                 (ref_pem_Encode ''CERTIFICATE'' der) w1
      in ((der, None), w2\<lparr>serials := serial\<rparr>))"

definition ref_CreateRootCert ::
  "string \<Rightarrow> string \<Rightarrow> string \<Rightarrow> string \<Rightarrow> string \<Rightarrow> string \<Rightarrow> string \<Rightarrow> string \<Rightarrow> int
   \<Rightarrow> string list \<Rightarrow> rsa_PrivateKey \<Rightarrow> rsa_PublicKey \<Rightarrow> CreationType \<Rightarrow> world
   \<Rightarrow> (bytes \<times> err option) \<times> world" where
  "ref_CreateRootCert caName name country province locality organization unit email valid
     dns priv pub t w = issue caName name name name t w"

definition ref_CreateCACert ::
  "string \<Rightarrow> string \<Rightarrow> string \<Rightarrow> string \<Rightarrow> string \<Rightarrow> string \<Rightarrow> string \<Rightarrow> string \<Rightarrow> int
   \<Rightarrow> string list \<Rightarrow> rsa_PrivateKey \<Rightarrow> rsa_PrivateKey option \<Rightarrow> x509_Certificate option
   \<Rightarrow> rsa_PublicKey \<Rightarrow> CreationType \<Rightarrow> world \<Rightarrow> (bytes \<times> err option) \<times> world" where
  "ref_CreateCACert caName name country province locality organization unit email valid
     dns priv parentPriv parentCert pub t w =
     (case (parentPriv, parentCert) of
        (Some k, Some p) \<Rightarrow>
          issue caName name name (takeWhile (\<lambda>x. x \<noteq> CHR ''<'') (cert_Raw p)) t w
      | (Some k, None) \<Rightarrow> (([], Some (ErrOther ''no parent certificate'')), w)
      | (None, p) \<Rightarrow> (([], Some (ErrOther ''no parent key'')), w))"

definition ref_LoadCert :: "bytes \<Rightarrow> x509_Certificate option \<times> err option" where
  "ref_LoadCert b =
     (case pem_Decode ''CERTIFICATE'' b of
        None \<Rightarrow> (None, Some (ErrOther ''bad certificate''))
      | Some der \<Rightarrow> ref_ParseCertificate der)"

definition ref_LoadCSR :: "bytes \<Rightarrow> x509_CertificateRequest option \<times> err option" where
  "ref_LoadCSR b =
     (case pem_Decode ''CERTIFICATE REQUEST'' b of
        None \<Rightarrow> (None, Some (ErrOther ''bad certificate request''))
      | Some der \<Rightarrow> ref_ParseCertificateRequest der)"

definition ref_LoadCRL :: "bytes \<Rightarrow> pkix_CertificateList option \<times> err option" where
  "ref_LoadCRL b =
     (case pem_Decode ''X509 CRL'' b of
        None \<Rightarrow> (None, Some (ErrOther ''bad certificate list''))
      | Some der \<Rightarrow> ref_ParseCRL der)"

definition ref_LoadParentCACertificate ::
  "string \<Rightarrow> world \<Rightarrow> x509_Certificate option \<times> rsa_PrivateKey option \<times> err option" where
  "ref_LoadParentCACertificate name w =
     (if \<not> ref_CAStorage name w then (None, None, Some (ErrOther ''parent CA not found''))
      else
        case ref_LoadFile [name, ''ca'', name @ certExtension] w of
          (b, Some e) \<Rightarrow> (None, None, Some e)
        | (b, None) \<Rightarrow>
          (case ref_LoadCert b of
             (p, Some e) \<Rightarrow> (None, None, Some e)
           | (p, None) \<Rightarrow>
             (case ref_LoadFile [name, ''ca'', ''key.pem''] w of
                (kb, Some e) \<Rightarrow> (None, None, Some e)
              | (kb, None) \<Rightarrow>
                (case ref_LoadPrivateKey kb of
                   (k, Some e) \<Rightarrow> (None, None, Some e)
                 | (k, None) \<Rightarrow> (p, k, None)))))"

definition ref_CreateCSR ::
  "string \<Rightarrow> string \<Rightarrow> string \<Rightarrow> string \<Rightarrow> string \<Rightarrow> string \<Rightarrow> string \<Rightarrow> string
   \<Rightarrow> string list \<Rightarrow> rsa_PrivateKey \<Rightarrow> CreationType \<Rightarrow> world
   \<Rightarrow> (bytes \<times> err option) \<times> world" where
  "ref_CreateCSR caName name country province locality organization unit email dns priv t w =
     (let der = ''CSR|'' @ name;
          dir = cert_dir caName name t w;
          w1 = (case t of CreationTypeCA \<Rightarrow> w | CreationTypeCertificate \<Rightarrow> make_dir dir w)
      in ((der, None),
          write_file (ref_Join [dir, name @ csrExtension])
            (ref_pem_Encode ''CERTIFICATE REQUEST'' der) w1))"

definition ref_CASignCSR ::
  "string \<Rightarrow> x509_CertificateRequest \<Rightarrow> x509_Certificate option \<Rightarrow> rsa_PrivateKey \<Rightarrow> int
   \<Rightarrow> CreationType \<Rightarrow> world \<Rightarrow> (bytes \<times> err option) \<times> world" where
  "ref_CASignCSR caName request caCert priv valid t w =
     (case caCert of
        None \<Rightarrow> (([], Some (ErrOther ''no CA certificate'')), w)
      | Some p \<Rightarrow>
          issue caName (Subject_CommonName request) (Subject_CommonName request)
            (takeWhile (\<lambda>x. x \<noteq> CHR ''<'') (cert_Raw p)) t w)"

definition ref_RevokeCertificate ::
  "string \<Rightarrow> pkix_RevokedCertificate list \<Rightarrow> x509_Certificate option \<Rightarrow> rsa_PrivateKey
   \<Rightarrow> world \<Rightarrow> (bytes \<times> err option) \<times> world" where
  "ref_RevokeCertificate caName rs caCert priv w =
     (case caCert of
        None \<Rightarrow> (([], Some (ErrOther ''no CA certificate'')), w)
      | Some p \<Rightarrow>
          ((enc_crl rs, None),
           write_file (ref_Join [CAPATH w, caName, ''ca'', caName @ crlExtension])
             (ref_pem_Encode ''X509 CRL'' (enc_crl rs)) w))"

text \<open>Modelled from the spec: \<open>os.Getenv\<close>, \<open>os.Stat\<close> with the test for \<open>fs.ErrNotExist\<close>, and
  \<open>time.Now\<close>, which are not part of \<open>ca.go\<close>.\<close>

definition ref_Getenv :: "string \<Rightarrow> world \<Rightarrow> string" where
  "ref_Getenv name w = (if name = ''CAPATH'' then CAPATH w else [])"

definition ref_Stat_IsNotExist :: "string \<Rightarrow> world \<Rightarrow> bool" where
  "ref_Stat_IsNotExist path w = (path \<notin> set (dirs w) \<and> map_of (files w) path = None)"

definition ref_env :: "world env" where
  "ref_env =
     \<lparr>CAStorage = ref_CAStorage, MakeFolder = ref_MakeFolder, LoadFile = ref_LoadFile,
      CopyFile = ref_CopyFile, CreateKeys = ref_CreateKeys,
      LoadPrivateKey = ref_LoadPrivateKey, LoadPublicKey = ref_LoadPublicKey,
      CreateRootCert = ref_CreateRootCert, CreateCACert = ref_CreateCACert,
      LoadParentCACertificate = ref_LoadParentCACertificate,
      RevokeCertificate = ref_RevokeCertificate, LoadCSR = ref_LoadCSR,
      LoadCert = ref_LoadCert, LoadCRL = ref_LoadCRL, CASignCSR = ref_CASignCSR,
      CreateCSR = ref_CreateCSR, ListCAs = ref_ListCAs,
      x509_ParseCertificate = ref_ParseCertificate, x509_ParseCRL = ref_ParseCRL,
      x509_ParseCertificateRequest = ref_ParseCertificateRequest,
      pem_Encode = ref_pem_Encode, filepath_Join = ref_Join, os_Getenv = ref_Getenv,
      os_Stat_IsNotExist = ref_Stat_IsNotExist, time_Now = now\<rparr>"

text \<open>An empty store under \<open>/ca\<close>, a CA value that has only its name, and a full identity.\<close>

definition world0 :: world where
  "world0 = \<lparr>CAPATH = ''/ca'', dirs = [], files = [], now = 7, serials = 0\<rparr>"

definition newCA :: "string \<Rightarrow> CA" where
  "newCA name = \<lparr>CommonName = name, Data = CAData_zero\<rparr>"

definition identity0 :: Identity where
  "identity0 =
     \<lparr>Organization = ''Acme'', OrganizationalUnit = ''Sec'', Country = ''NL'',
      Locality = ''X'', Province = ''Y'', EmailAddresses = [], DNSNames = [],
      Intermediate = False, KeyBitSize = 2048, Valid = 3650\<rparr>"

text \<open>The store and the CA after \<open>create\<close> of the root CA \<open>root.test\<close> in the empty store
  (lemma \<open>create_root\<close> below), a certificate with serial number 2, and a request for the
  name \<open>child\<close>.\<close>

definition rootCA :: CA where
  "rootCA =
     \<lparr>CommonName = ''root.test'',
      Data =
        \<lparr>CAData.CRL = [], CAData.Certificate = ''CERTIFICATE:+1|root.test<root.test'',
         CAData.CSR = [], CAData.PrivateKey = ''PRIVATE KEY:priv-root.test'',
         CAData.PublicKey = [], CAData.privateKey = RsaPrivateKey ''priv-root.test'',
         CAData.certificate =
           Some \<lparr>x509_Certificate.SerialNumber = 1, cert_Raw = ''root.test<root.test''\<rparr>,
         CAData.publicKey = RsaPublicKey ''pub-root.test'', CAData.csr = None,
         CAData.crl = None, CAData.IsIntermediate = False\<rparr>\<rparr>"

definition world1 :: world where
  "world1 =
     \<lparr>CAPATH = ''/ca'',
      dirs = [''/ca/root.test/certs'', ''/ca/root.test/ca''],
      files =
        [(''/ca/root.test/ca/root.test.crl'', ''X509 CRL:''),
         (''/ca/root.test/ca/root.test.crt'', ''CERTIFICATE:+1|root.test<root.test''),
         (''/ca/root.test/ca/key.pub'', ''PUBLIC KEY:pub-root.test''),
         (''/ca/root.test/ca/key.pem'', ''PRIVATE KEY:priv-root.test'')],
      now = 7, serials = 1\<rparr>"

definition leafCert :: x509_Certificate where
  "leafCert = \<lparr>x509_Certificate.SerialNumber = 2, cert_Raw = ''leaf.test<root.test''\<rparr>"

definition childCSR :: x509_CertificateRequest where
  "childCSR = \<lparr>Subject_CommonName = ''child'', csr_Raw = ''CSR|child''\<rparr>"

text \<open>The store after the directories and the keys of \<open>inter.test\<close> have been made in
  \<open>world1\<close>, and the root CA with one revoked entry.\<close>

definition world2 :: world where
  "world2 =
     \<lparr>CAPATH = ''/ca'',
      dirs = [''/ca/inter.test/certs'', ''/ca/inter.test/ca'',
              ''/ca/root.test/certs'', ''/ca/root.test/ca''],
      files =
        [(''/ca/inter.test/ca/key.pub'', ''PUBLIC KEY:pub-inter.test''),
         (''/ca/inter.test/ca/key.pem'', ''PRIVATE KEY:priv-inter.test''),
         (''/ca/root.test/ca/root.test.crl'', ''X509 CRL:''),
         (''/ca/root.test/ca/root.test.crt'', ''CERTIFICATE:+1|root.test<root.test''),
         (''/ca/root.test/ca/key.pub'', ''PUBLIC KEY:pub-root.test''),
         (''/ca/root.test/ca/key.pem'', ''PRIVATE KEY:priv-root.test'')],
      now = 7, serials = 1\<rparr>"

definition revokedCA :: CA where
  "revokedCA =
     rootCA\<lparr>Data := (Data rootCA)\<lparr>CAData.crl :=
       Some \<lparr>TBSCertList_RevokedCertificates =
               [\<lparr>pkix_RevokedCertificate.SerialNumber = 2, RevocationTime = 7\<rparr>],
             crl_Raw = ''+11,+1111111;''\<rparr>\<rparr>\<rparr>"

text \<open>The certificate that the root CA issues for \<open>leaf.test\<close> in \<open>world1\<close>.\<close>

definition leafIssued :: Certificate where
  "leafIssued =
     \<lparr>Certificate.commonName = [],
      Certificate.Certificate = ''CERTIFICATE:+11|leaf.test<root.test'',
      Certificate.CSR = ''CERTIFICATE REQUEST:CSR|leaf.test'',
      Certificate.PrivateKey = ''PRIVATE KEY:priv-leaf.test'',
      Certificate.PublicKey = ''PUBLIC KEY:pub-leaf.test'',
      Certificate.CACertificate = ''CERTIFICATE:+1|root.test<root.test'',
      Certificate.privateKey = RsaPrivateKey ''priv-leaf.test'',
      Certificate.publicKey = RsaPublicKey ''pub-leaf.test'',
      Certificate.csr = \<lparr>Subject_CommonName = ''leaf.test'', csr_Raw = ''CSR|leaf.test''\<rparr>,
      Certificate.certificate = Some leafCert,
      Certificate.caCertificate =
        Some \<lparr>x509_Certificate.SerialNumber = 1, cert_Raw = ''root.test<root.test''\<rparr>\<rparr>"

text \<open>The store after \<open>create\<close> of the intermediate CA \<open>child\<close> with parent \<open>root.test\<close> in
  \<open>world1\<close>.\<close>

definition world3 :: world where
  "world3 =
     \<lparr>CAPATH = ''/ca'',
      dirs = [''/ca/child/certs'', ''/ca/child/ca'', ''/ca/root.test/certs'', ''/ca/root.test/ca''],
      files =
        [(''/ca/child/ca/child.crl'', ''X509 CRL:''),
         (''/ca/child/ca/child.crt'', ''CERTIFICATE:+11|child<root.test''),
         (''/ca/child/ca/key.pub'', ''PUBLIC KEY:pub-child''),
         (''/ca/child/ca/key.pem'', ''PRIVATE KEY:priv-child''),
         (''/ca/root.test/ca/root.test.crl'', ''X509 CRL:''),
         (''/ca/root.test/ca/root.test.crt'', ''CERTIFICATE:+1|root.test<root.test''),
         (''/ca/root.test/ca/key.pub'', ''PUBLIC KEY:pub-root.test''),
         (''/ca/root.test/ca/key.pem'', ''PRIVATE KEY:priv-root.test'')],
      now = 7, serials = 2\<rparr>"

section \<open>The reference environment meets the contracts\<close>

text \<open>The codec of the reference environment parses what it encodes, its store keeps the
  names it knows, and \<open>create\<close> of the root CA in the empty store ends in \<open>world1\<close>.\<close>

lemma dec_int_enc_int: "dec_int (enc_int i) = Some i"
  by (auto simp add: dec_int_def enc_int_def list_all_iff)

lemma enc_int_no_sep: "CHR '','' \<notin> set (enc_int i) \<and> CHR '';'' \<notin> set (enc_int i)"
  by (auto simp add: enc_int_def)

lemma dec_crl_token:
  "CHR '','' \<notin> set t \<Longrightarrow> CHR '';'' \<notin> set t \<Longrightarrow>
   dec_crl (t @ rest) cur ser acc = dec_crl rest (rev t @ cur) ser acc"
  by (induction t arbitrary: cur) auto

lemma dec_crl_entry:
  "dec_crl (enc_entry r @ rest) [] None acc = dec_crl rest [] None (r # acc)"
proof -
  let ?a = "enc_int (pkix_RevokedCertificate.SerialNumber r)"
  let ?b = "enc_int (RevocationTime r)"
  have "dec_crl (enc_entry r @ rest) [] None acc
      = dec_crl (?a @ (CHR '','' # ?b @ CHR '';'' # rest)) [] None acc"
    by (simp add: enc_entry_def)
  also have "\<dots> = dec_crl (CHR '','' # ?b @ CHR '';'' # rest) (rev ?a) None acc"
    using dec_crl_token [of ?a _ "[]"] enc_int_no_sep by simp
  also have "\<dots> = dec_crl (?b @ CHR '';'' # rest) [] (Some ?a) acc"
    by simp
  also have "\<dots> = dec_crl (CHR '';'' # rest) (rev ?b) (Some ?a) acc"
    using dec_crl_token [of ?b _ "[]"] enc_int_no_sep by simp
  also have "\<dots> = dec_crl rest [] None (r # acc)"
    by (cases r) (simp add: dec_int_enc_int)
  finally show ?thesis .
qed

lemma dec_crl_enc_crl:
  "dec_crl (enc_crl rs @ rest) [] None acc = dec_crl rest [] None (rev rs @ acc)"
  by (induction rs arbitrary: acc) (simp_all add: enc_crl_def dec_crl_entry)

lemma ref_ParseCRL_enc_crl:
  "ref_ParseCRL (enc_crl rs) = (Some \<lparr>TBSCertList_RevokedCertificates = rs, crl_Raw = enc_crl rs\<rparr>, None)"
  using dec_crl_enc_crl [of rs "[]" "[]"] by (simp add: ref_ParseCRL_def)

lemma ref_env_roundtrip: "crl_codec_roundtrip ref_env"
  by (auto simp add: crl_codec_roundtrip_def ref_env_def ref_RevokeCertificate_def
        ref_ParseCRL_enc_crl split: option.splits)

lemma ref_Join_ca: "ref_Join [base, ref_Join [name, ''ca'']] = ref_Join [base, name, ''ca'']"
  by (simp add: ref_Join_def)

lemma ref_CAStorage_mono:
  "ref_CAStorage name w \<Longrightarrow> CAPATH w1 = CAPATH w \<Longrightarrow> set (dirs w) \<subseteq> set (dirs w1)
   \<Longrightarrow> ref_CAStorage name w1"
  by (auto simp add: ref_CAStorage_def)

lemma issue_grows:
  "CAPATH (snd (issue a b s i t w)) = CAPATH w \<and> set (dirs w) \<subseteq> set (dirs (snd (issue a b s i t w)))"
  by (auto simp add: issue_def Let_def write_file_def make_dir_def split: CreationType.splits)

lemma ref_CAStorage_issue:
  "ref_CAStorage name w \<Longrightarrow> ref_CAStorage name (snd (issue a b s i t w))"
  using issue_grows [of a b s i t w] by (blast intro: ref_CAStorage_mono)

lemma ref_env_keeps: "store_keeps_CAs ref_env"
  unfolding store_keeps_CAs_def
proof (intro conjI allI impI)
  fix name w w1
  assume "MakeFolder ref_env (os_Getenv ref_env ''CAPATH'' w) (filepath_Join ref_env [name, ''ca'']) w = (None, w1)"
  then show "CAStorage ref_env name w1"
    by (auto simp add: ref_env_def ref_MakeFolder_def ref_Getenv_def ref_CAStorage_def
          make_dir_def ref_Join_ca)
next
  fix name base dir w
  assume "CAStorage ref_env name w"
  then show "CAStorage ref_env name (snd (MakeFolder ref_env base dir w))"
    by (auto simp add: ref_env_def ref_MakeFolder_def make_dir_def intro: ref_CAStorage_mono)
next
  fix name a b t n w
  assume "CAStorage ref_env name w"
  then show "CAStorage ref_env name (snd (CreateKeys ref_env a b t n w))"
    by (auto simp add: ref_env_def ref_CreateKeys_def make_dir_def write_file_def Let_def
          split: CreationType.splits intro: ref_CAStorage_mono)
next
  fix name a1 a2 a3 a4 a5 a6 a7 a8 a9 a10 a11 a12 a13 w
  assume "CAStorage ref_env name w"
  then show "CAStorage ref_env name
       (snd (CreateRootCert ref_env a1 a2 a3 a4 a5 a6 a7 a8 a9 a10 a11 a12 a13 w))"
    by (simp add: ref_env_def ref_CreateRootCert_def ref_CAStorage_issue)
next
  fix name a1 a2 a3 a4 a5 a6 a7 a8 a9 a10 a11 a12 a13 a14 a15 w
  assume "CAStorage ref_env name w"
  then show "CAStorage ref_env name
       (snd (CreateCACert ref_env a1 a2 a3 a4 a5 a6 a7 a8 a9 a10 a11 a12 a13 a14 a15 w))"
    by (simp add: ref_env_def ref_CreateCACert_def ref_CAStorage_issue split: option.splits)
next
  fix name a rs p k w
  assume "CAStorage ref_env name w"
  then show "CAStorage ref_env name (snd (RevokeCertificate ref_env a rs p k w))"
    by (auto simp add: ref_env_def ref_RevokeCertificate_def write_file_def split: option.splits
          intro: ref_CAStorage_mono)
qed

lemma create_root:
  "create ref_env ''root.test'' [] identity0 (newCA ''root.test'') world0 = (None, rootCA, world1)"
  by code_simp

section \<open>Properties of \<open>create\<close>\<close>

text \<open>
  C5, as amended. An identity with an empty organization, organizational unit, country,
  locality or province: \<open>create\<close> returns an error, and neither the receiver nor the world
  has changed, so no directory was made and no file written. The error is
  \<open>ErrCAMissingInfo\<close> when the store does not hold the common name; a name the store holds
  is refused before, at line 82, with \<open>ErrCAGenerateExists\<close>.
\<close>

theorem create_MissingInfo:
  assumes "Organization id' = [] \<or> OrganizationalUnit id' = [] \<or> Country id' = []
         \<or> Locality id' = [] \<or> Province id' = []"
  shows "create env commonName' parentCommonName id' c w =
           (Some (if CAStorage env commonName' w then ErrCAGenerateExists else ErrCAMissingInfo),
            c, w)"
  using assms by (simp add: create_def Let_def)

theorem create_MissingInfo_witness:
  "\<not> CAStorage ref_env ''root.test'' world0
   \<and> Organization (identity0\<lparr>Organization := []\<rparr>) = []
   \<and> create ref_env ''root.test'' [] (identity0\<lparr>Organization := []\<rparr>) (newCA ''root.test'') world0
       = (Some ErrCAMissingInfo, newCA ''root.test'', world0)"
proof -
  have a: "\<not> CAStorage ref_env ''root.test'' world0" by code_simp
  have b: "Organization (identity0\<lparr>Organization := []\<rparr>) = []" by simp
  then have b': "Organization (identity0\<lparr>Organization := []\<rparr>) = []
      \<or> OrganizationalUnit (identity0\<lparr>Organization := []\<rparr>) = []
      \<or> Country (identity0\<lparr>Organization := []\<rparr>) = []
      \<or> Locality (identity0\<lparr>Organization := []\<rparr>) = []
      \<or> Province (identity0\<lparr>Organization := []\<rparr>) = []" by simp
  from create_MissingInfo [OF b', of ref_env "''root.test''" "[]" "newCA ''root.test''" world0] a b
  show ?thesis by simp
qed

text \<open>
  Without the condition on the store the claim fails: \<open>root.test\<close> is held in \<open>world1\<close>, the
  organization is empty, and \<open>create\<close> returns \<open>ErrCAGenerateExists\<close> at line 82, before the
  fields are looked at.
\<close>

theorem create_MissingInfo_counterexample:
  "CAStorage ref_env ''root.test'' world1
   \<and> Organization (identity0\<lparr>Organization := []\<rparr>) = []
   \<and> create ref_env ''root.test'' [] (identity0\<lparr>Organization := []\<rparr>) rootCA world1
       = (Some ErrCAGenerateExists, rootCA, world1)
   \<and> fst (create ref_env ''root.test'' [] (identity0\<lparr>Organization := []\<rparr>) rootCA world1)
       \<noteq> Some ErrCAMissingInfo"
proof -
  have a: "CAStorage ref_env ''root.test'' world1" by code_simp
  have b: "Organization (identity0\<lparr>Organization := []\<rparr>) = []" by simp
  have c: "create ref_env ''root.test'' [] (identity0\<lparr>Organization := []\<rparr>) rootCA world1
       = (Some ErrCAGenerateExists, rootCA, world1)"
    using a by (simp add: create_def)
  from a b c show ?thesis by simp
qed

text \<open>
  An intermediate CA without a parent name: when the checks and steps before line 147
  pass, \<open>create\<close> returns \<open>ErrParentCommonNameNotSpecified\<close> and leaves the receiver as it
  was.
\<close>

lemma create_ParentNotSpecified:
  assumes "\<not> CAStorage env commonName' w"
    and "Organization id' \<noteq> []" "OrganizationalUnit id' \<noteq> []" "Country id' \<noteq> []"
        "Locality id' \<noteq> []" "Province id' \<noteq> []"
    and "MakeFolder env (os_Getenv env ''CAPATH'' w) (filepath_Join env [commonName', ''ca'']) w
           = (None, w1)"
    and "MakeFolder env (os_Getenv env ''CAPATH'' w1) (filepath_Join env [commonName', ''certs'']) w1
           = (None, w2)"
    and "CreateKeys env commonName' commonName' CreationTypeCA (KeyBitSize id') w2
           = ((caKeys, None), w3)"
    and "Intermediate id'"
  shows "create env commonName' [] id' c w = (Some ErrParentCommonNameNotSpecified, c, w3)"
  using assms by (simp add: create_def Let_def)

text \<open>
  C1. The empty parent name is refused as the claim says (lemma \<open>create_ParentNotSpecified\<close>);
  the parent that does not load is not. An intermediate CA with a parent name, the checks
  and steps before line 155 passing, and \<open>cert.LoadParentCACertificate\<close> returning the
  error \<open>e\<close>: line 157 is \<open>return nil\<close>, so \<open>create\<close> returns no error at all; the receiver
  is untouched, and the directories and keys made so far stay in the world.
\<close>

theorem create_parent_load_error_returns_nil:
  assumes "\<not> CAStorage env commonName' w"
    and "Organization id' \<noteq> []" "OrganizationalUnit id' \<noteq> []" "Country id' \<noteq> []"
        "Locality id' \<noteq> []" "Province id' \<noteq> []"
    and "MakeFolder env (os_Getenv env ''CAPATH'' w) (filepath_Join env [commonName', ''ca'']) w
           = (None, w1)"
    and "MakeFolder env (os_Getenv env ''CAPATH'' w1) (filepath_Join env [commonName', ''certs'']) w1
           = (None, w2)"
    and "CreateKeys env commonName' commonName' CreationTypeCA (KeyBitSize id') w2
           = ((caKeys, None), w3)"
    and "Intermediate id'" and "parentCommonName \<noteq> []"
    and "LoadParentCACertificate env parentCommonName w3
           = (parentCertificate, parentPrivateKey, Some e)"
  shows "create env commonName' parentCommonName id' c w = (None, c, w3)"
  using assms by (simp add: create_def Let_def)

theorem create_parent_load_error_returns_nil_witness:
  "LoadParentCACertificate ref_env ''ghost'' world2
     = (None, None, Some (ErrOther ''parent CA not found''))
   \<and> create ref_env ''inter.test'' ''ghost'' (identity0\<lparr>Intermediate := True\<rparr>)
       (newCA ''inter.test'') world1
     = (None, newCA ''inter.test'', world2)"
proof -
  let ?id = "identity0\<lparr>Intermediate := True\<rparr>"
  let ?wa = "make_dir ''/ca/inter.test/ca'' world1"
  let ?wb = "make_dir ''/ca/inter.test/certs'' ?wa"
  have h1: "\<not> CAStorage ref_env ''inter.test'' world1" by code_simp
  have h2: "Organization ?id \<noteq> []" "OrganizationalUnit ?id \<noteq> []" "Country ?id \<noteq> []"
    "Locality ?id \<noteq> []" "Province ?id \<noteq> []"
    by (simp_all add: identity0_def)
  have m1: "MakeFolder ref_env (os_Getenv ref_env ''CAPATH'' world1)
      (filepath_Join ref_env [''inter.test'', ''ca'']) world1 = (None, ?wa)"
    by code_simp
  have m2: "MakeFolder ref_env (os_Getenv ref_env ''CAPATH'' ?wa)
      (filepath_Join ref_env [''inter.test'', ''certs'']) ?wa = (None, ?wb)"
    by code_simp
  have m3: "CreateKeys ref_env ''inter.test'' ''inter.test'' CreationTypeCA (KeyBitSize ?id) ?wb
      = ((\<lparr>Key = RsaPrivateKey ''priv-inter.test'',
           KeysData.PublicKey = RsaPublicKey ''pub-inter.test''\<rparr>, None), world2)"
    by code_simp
  have h3: "Intermediate ?id" by simp
  have h4: "''ghost'' \<noteq> []" by simp
  have m4: "LoadParentCACertificate ref_env ''ghost'' world2
      = (None, None, Some (ErrOther ''parent CA not found''))"
    by code_simp
  from create_parent_load_error_returns_nil [OF h1 h2 m1 m2 m3 h3 h4 m4] m4
  show ?thesis by simp
qed

text \<open>
  What a nil result of \<open>create\<close> says about the path taken: both directories made, the keys
  created, and then either the return of line 157 or the certificate built and
  \<open>cert.RevokeCertificate\<close> called, with the CRL fields of the result as lines 190 to 203
  leave them.
\<close>

lemma create_nil_path:
  assumes ok: "create env commonName' parentCommonName id' c w = (None, c1, w1)"
  shows "\<exists>wa wb caKeys wc.
      \<not> CAStorage env commonName' w
    \<and> MakeFolder env (os_Getenv env ''CAPATH'' w) (filepath_Join env [commonName', ''ca'']) w
        = (None, wa)
    \<and> MakeFolder env (os_Getenv env ''CAPATH'' wa) (filepath_Join env [commonName', ''certs'']) wa
        = (None, wb)
    \<and> CreateKeys env commonName' commonName' CreationTypeCA (KeyBitSize id') wb
        = ((caKeys, None), wc)
    \<and> ((Intermediate id' \<and> c1 = c \<and> w1 = wc)
       \<or> (\<exists>certBytes wd crlBytes rerr.
             (if Intermediate id'
              then \<exists>parentCertificate parentPrivateKey.
                     CreateCACert env commonName' commonName' (Country id') (Province id')
                       (Locality id') (Organization id') (OrganizationalUnit id')
                       (EmailAddresses id') (Valid id') (DNSNames id') (Key caKeys)
                       parentPrivateKey parentCertificate (KeysData.PublicKey caKeys)
                       CreationTypeCA wc = ((certBytes, None), wd)
              else CreateRootCert env commonName' commonName' (Country id') (Province id')
                     (Locality id') (Organization id') (OrganizationalUnit id')
                     (EmailAddresses id') (Valid id') (DNSNames id') (Key caKeys)
                     (KeysData.PublicKey caKeys) CreationTypeCA wc = ((certBytes, None), wd))
           \<and> RevokeCertificate env (CommonName c) [] (fst (x509_ParseCertificate env certBytes))
                (Key caKeys) wd = ((crlBytes, rerr), w1)
           \<and> CAData.CRL (Data c1) = []
           \<and> (CAData.crl (Data c1) = None
              \<or> (\<exists>e. x509_ParseCRL env crlBytes = (CAData.crl (Data c1), Some e)))))"
proof -
  have nex: "\<not> CAStorage env commonName' w"
    using ok by (cases "CAStorage env commonName' w") (simp_all add: create_def)
  have full: "\<not> (Organization id' = [] \<or> OrganizationalUnit id' = [] \<or> Country id' = []
          \<or> Locality id' = [] \<or> Province id' = [])"
  proof
    assume "Organization id' = [] \<or> OrganizationalUnit id' = [] \<or> Country id' = []
          \<or> Locality id' = [] \<or> Province id' = []"
    with nex have "create env commonName' parentCommonName id' c w = (Some ErrCAMissingInfo, c, w)"
      by (simp add: create_def Let_def)
    with ok show False by simp
  qed
  obtain r1 wa where m1: "MakeFolder env (os_Getenv env ''CAPATH'' w)
      (filepath_Join env [commonName', ''ca'']) w = (r1, wa)"
    by (cases "MakeFolder env (os_Getenv env ''CAPATH'' w)
      (filepath_Join env [commonName', ''ca'']) w") 
  have r1: "r1 = None"
    using ok nex full m1 by (cases r1) (simp_all add: create_def Let_def)
  obtain r2 wb where m2: "MakeFolder env (os_Getenv env ''CAPATH'' wa)
      (filepath_Join env [commonName', ''certs'']) wa = (r2, wb)"
    by (cases "MakeFolder env (os_Getenv env ''CAPATH'' wa)
      (filepath_Join env [commonName', ''certs'']) wa") 
  have r2: "r2 = None"
    using ok nex full m1 r1 m2 by (cases r2) (simp_all add: create_def Let_def)
  obtain caKeys r3 wc where m3: "CreateKeys env commonName' commonName' CreationTypeCA
      (KeyBitSize id') wb = ((caKeys, r3), wc)"
    by (cases "CreateKeys env commonName' commonName' CreationTypeCA (KeyBitSize id') wb") auto
  have r3: "r3 = None"
    using ok nex full m1 r1 m2 r2 m3 by (cases r3) (simp_all add: create_def Let_def)
  note path = nex full m1[unfolded r1] m2[unfolded r2] m3[unfolded r3]
  show ?thesis
  proof (cases "Intermediate id'")
    case False
    obtain certBytes r4 wd where m4:
      "CreateRootCert env commonName' commonName' (Country id') (Province id')
         (Locality id') (Organization id') (OrganizationalUnit id')
         (EmailAddresses id') (Valid id') (DNSNames id') (Key caKeys)
         (KeysData.PublicKey caKeys) CreationTypeCA wc = ((certBytes, r4), wd)"
      by (metis surj_pair)
    have r4: "r4 = None"
      using ok path False m4 by (cases r4) (simp_all add: create_def Let_def)
    obtain crlBytes rerr we where m5:
      "RevokeCertificate env (CommonName c) [] (fst (x509_ParseCertificate env certBytes))
         (Key caKeys) wd = ((crlBytes, rerr), we)"
      by (metis surj_pair)
    have fin: "w1 = we \<and> CAData.CRL (Data c1) = []
        \<and> (CAData.crl (Data c1) = None
           \<or> (\<exists>e. x509_ParseCRL env crlBytes = (CAData.crl (Data c1), Some e)))"
      using ok path False m4 r4 m5
      by (auto simp add: create_def Let_def CAData_zero_def split: option.splits prod.splits)
    from path False m4 r4 m5 fin show ?thesis by auto
  next
    case True
    have pne: "parentCommonName \<noteq> []"
      using ok path True by (cases "parentCommonName = []") (simp_all add: create_def Let_def)
    obtain parentCertificate parentPrivateKey pe where m6:
      "LoadParentCACertificate env parentCommonName wc
         = (parentCertificate, parentPrivateKey, pe)"
      by (metis surj_pair)
    show ?thesis
    proof (cases pe)
      case (Some e)
      with ok path True pne m6 have "c1 = c \<and> w1 = wc"
        by (simp add: create_def Let_def)
      with path True show ?thesis by auto
    next
      case None
      obtain certBytes r4 wd where m4:
        "CreateCACert env commonName' commonName' (Country id') (Province id')
           (Locality id') (Organization id') (OrganizationalUnit id')
           (EmailAddresses id') (Valid id') (DNSNames id') (Key caKeys)
           parentPrivateKey parentCertificate (KeysData.PublicKey caKeys)
           CreationTypeCA wc = ((certBytes, r4), wd)"
        by (metis surj_pair)
      have r4: "r4 = None"
        using ok path True pne m6 None m4 by (cases r4) (simp_all add: create_def Let_def)
      obtain crlBytes rerr we where m5:
        "RevokeCertificate env (CommonName c) [] (fst (x509_ParseCertificate env certBytes))
           (Key caKeys) wd = ((crlBytes, rerr), we)"
        by (metis surj_pair)
      have fin: "w1 = we \<and> CAData.CRL (Data c1) = []
          \<and> (CAData.crl (Data c1) = None
             \<or> (\<exists>e. x509_ParseCRL env crlBytes = (CAData.crl (Data c1), Some e)))"
        using ok path True pne m6 None m4 r4 m5
        by (auto simp add: create_def Let_def CAData_zero_def split: option.splits prod.splits)
      from path True m4 r4 m5 fin show ?thesis by auto
    qed
  qed
qed

text \<open>
  C4. Under the store's contract, a \<open>create\<close> that returned nil has made the name known,
  so a second \<open>create\<close> for the same name, whatever its other arguments, returns
  \<open>ErrCAGenerateExists\<close> at line 82 and changes nothing.
\<close>

theorem create_twice_AlreadyExists:
  assumes keeps: "store_keeps_CAs env"
    and ok: "create env commonName' parentCommonName id' c w = (None, c1, w1)"
  shows "create env commonName' parentCommonName2 id2 c1 w1 = (Some ErrCAGenerateExists, c1, w1)"
proof -
  from create_nil_path [OF ok] obtain wa wb caKeys wc where
    m1: "MakeFolder env (os_Getenv env ''CAPATH'' w) (filepath_Join env [commonName', ''ca'']) w
        = (None, wa)"
    and m2: "MakeFolder env (os_Getenv env ''CAPATH'' wa) (filepath_Join env [commonName', ''certs'']) wa
        = (None, wb)"
    and m3: "CreateKeys env commonName' commonName' CreationTypeCA (KeyBitSize id') wb
        = ((caKeys, None), wc)"
    and rest: "w1 = wc
       \<or> (\<exists>certBytes wd crlBytes rerr.
             (if Intermediate id'
              then \<exists>parentCertificate parentPrivateKey.
                     CreateCACert env commonName' commonName' (Country id') (Province id')
                       (Locality id') (Organization id') (OrganizationalUnit id')
                       (EmailAddresses id') (Valid id') (DNSNames id') (Key caKeys)
                       parentPrivateKey parentCertificate (KeysData.PublicKey caKeys)
                       CreationTypeCA wc = ((certBytes, None), wd)
              else CreateRootCert env commonName' commonName' (Country id') (Province id')
                     (Locality id') (Organization id') (OrganizationalUnit id')
                     (EmailAddresses id') (Valid id') (DNSNames id') (Key caKeys)
                     (KeysData.PublicKey caKeys) CreationTypeCA wc = ((certBytes, None), wd))
           \<and> RevokeCertificate env (CommonName c) [] (fst (x509_ParseCertificate env certBytes))
                (Key caKeys) wd = ((crlBytes, rerr), w1))"
    by blast
  from keeps have k1: "\<forall>name w w1.
        MakeFolder env (os_Getenv env ''CAPATH'' w) (filepath_Join env [name, ''ca'']) w = (None, w1)
        \<longrightarrow> CAStorage env name w1"
    and k2: "\<forall>name base dir w.
        CAStorage env name w \<longrightarrow> CAStorage env name (snd (MakeFolder env base dir w))"
    and k3: "\<forall>name a b t n w.
        CAStorage env name w \<longrightarrow> CAStorage env name (snd (CreateKeys env a b t n w))"
    and k4: "\<forall>name a1 a2 a3 a4 a5 a6 a7 a8 a9 a10 a11 a12 a13 w.
        CAStorage env name w \<longrightarrow>
        CAStorage env name
          (snd (CreateRootCert env a1 a2 a3 a4 a5 a6 a7 a8 a9 a10 a11 a12 a13 w))"
    and k5: "\<forall>name a1 a2 a3 a4 a5 a6 a7 a8 a9 a10 a11 a12 a13 a14 a15 w.
        CAStorage env name w \<longrightarrow>
        CAStorage env name
          (snd (CreateCACert env a1 a2 a3 a4 a5 a6 a7 a8 a9 a10 a11 a12 a13 a14 a15 w))"
    and k6: "\<forall>name a rs p k w.
        CAStorage env name w \<longrightarrow> CAStorage env name (snd (RevokeCertificate env a rs p k w))"
    unfolding store_keeps_CAs_def by simp_all
  from k1 m1 have a: "CAStorage env commonName' wa" by blast
  from k2 a have "CAStorage env commonName'
      (snd (MakeFolder env (os_Getenv env ''CAPATH'' wa) (filepath_Join env [commonName', ''certs'']) wa))"
    by blast
  with m2 have b: "CAStorage env commonName' wb" by simp
  from k3 b have "CAStorage env commonName'
      (snd (CreateKeys env commonName' commonName' CreationTypeCA (KeyBitSize id') wb))"
    by blast
  with m3 have c: "CAStorage env commonName' wc" by simp
  have root: "CAStorage env commonName' wd"
    if "CreateRootCert env a1 a2 a3 a4 a5 a6 a7 a8 a9 a10 a11 a12 a13 wc = (r, wd)"
    for a1 a2 a3 a4 a5 a6 a7 a8 a9 a10 a11 a12 a13 r wd
  proof -
    from k4 c have "CAStorage env commonName'
        (snd (CreateRootCert env a1 a2 a3 a4 a5 a6 a7 a8 a9 a10 a11 a12 a13 wc))"
      by blast
    with that show ?thesis by simp
  qed
  have inter: "CAStorage env commonName' wd"
    if "CreateCACert env a1 a2 a3 a4 a5 a6 a7 a8 a9 a10 a11 a12 a13 a14 a15 wc = (r, wd)"
    for a1 a2 a3 a4 a5 a6 a7 a8 a9 a10 a11 a12 a13 a14 a15 r wd
  proof -
    from k5 c have "CAStorage env commonName'
        (snd (CreateCACert env a1 a2 a3 a4 a5 a6 a7 a8 a9 a10 a11 a12 a13 a14 a15 wc))"
      by blast
    with that show ?thesis by simp
  qed
  have revoke: "CAStorage env commonName' we"
    if "CAStorage env commonName' wd" and "RevokeCertificate env a rs p k wd = (r, we)"
    for a rs p k r wd we
  proof -
    from k6 that(1) have "CAStorage env commonName' (snd (RevokeCertificate env a rs p k wd))"
      by blast
    with that(2) show ?thesis by simp
  qed
  from rest have "CAStorage env commonName' w1"
  proof
    assume "w1 = wc" with c show ?thesis by simp
  next
    assume "\<exists>certBytes wd crlBytes rerr.
             (if Intermediate id'
              then \<exists>parentCertificate parentPrivateKey.
                     CreateCACert env commonName' commonName' (Country id') (Province id')
                       (Locality id') (Organization id') (OrganizationalUnit id')
                       (EmailAddresses id') (Valid id') (DNSNames id') (Key caKeys)
                       parentPrivateKey parentCertificate (KeysData.PublicKey caKeys)
                       CreationTypeCA wc = ((certBytes, None), wd)
              else CreateRootCert env commonName' commonName' (Country id') (Province id')
                     (Locality id') (Organization id') (OrganizationalUnit id')
                     (EmailAddresses id') (Valid id') (DNSNames id') (Key caKeys)
                     (KeysData.PublicKey caKeys) CreationTypeCA wc = ((certBytes, None), wd))
           \<and> RevokeCertificate env (CommonName c) [] (fst (x509_ParseCertificate env certBytes))
                (Key caKeys) wd = ((crlBytes, rerr), w1)"
    then obtain certBytes wd crlBytes rerr where
      mid: "if Intermediate id'
              then \<exists>parentCertificate parentPrivateKey.
                     CreateCACert env commonName' commonName' (Country id') (Province id')
                       (Locality id') (Organization id') (OrganizationalUnit id')
                       (EmailAddresses id') (Valid id') (DNSNames id') (Key caKeys)
                       parentPrivateKey parentCertificate (KeysData.PublicKey caKeys)
                       CreationTypeCA wc = ((certBytes, None), wd)
              else CreateRootCert env commonName' commonName' (Country id') (Province id')
                     (Locality id') (Organization id') (OrganizationalUnit id')
                     (EmailAddresses id') (Valid id') (DNSNames id') (Key caKeys)
                     (KeysData.PublicKey caKeys) CreationTypeCA wc = ((certBytes, None), wd)"
      and rv: "RevokeCertificate env (CommonName c) [] (fst (x509_ParseCertificate env certBytes))
                (Key caKeys) wd = ((crlBytes, rerr), w1)"
      by blast
    from mid have "CAStorage env commonName' wd"
      by (cases "Intermediate id'") (auto intro: root inter)
    then show ?thesis using rv by (rule revoke)
  qed
  then show ?thesis by (simp add: create_def)
qed

theorem create_twice_AlreadyExists_witness:
  "create ref_env ''root.test'' [] identity0 (newCA ''root.test'') world0 = (None, rootCA, world1)
   \<and> create ref_env ''root.test'' ''other'' (identity0\<lparr>Intermediate := True\<rparr>) rootCA world1
       = (Some ErrCAGenerateExists, rootCA, world1)"
  using create_twice_AlreadyExists [OF ref_env_keeps create_root] create_root by simp

text \<open>
  C6 fails on the code. After a \<open>create\<close> of a root CA that returned nil, the CRL text of
  the returned data is empty: line 202 writes it into the old data and line 203 replaces
  the data. The CRL object is nil unless \<open>x509.ParseCRL\<close> returned it together with an
  error, since lines 191 to 195 keep it only when building and parsing have both failed.
\<close>

theorem create_leaves_CRL_unset:
  assumes ok: "create env commonName' parentCommonName id' c w = (None, c1, w1)"
    and root: "\<not> Intermediate id'"
  shows "CAData.CRL (Data c1) = []
       \<and> (CAData.crl (Data c1) = None
          \<or> (\<exists>crlBytes e. x509_ParseCRL env crlBytes = (CAData.crl (Data c1), Some e)))"
  using create_nil_path [OF ok] root by auto

theorem create_leaves_CRL_unset_witness:
  "create ref_env ''root.test'' [] identity0 (newCA ''root.test'') world0 = (None, rootCA, world1)
   \<and> CAData.CRL (Data rootCA) = []
   \<and> CAData.crl (Data rootCA) = None
   \<and> LoadFile ref_env [filepath_Join ref_env [''root.test'', ''ca''], ''root.test'' @ crlExtension]
        world1 = (''X509 CRL:'', None)"
proof -
  have r: "\<not> Intermediate identity0" by (simp add: identity0_def)
  from create_leaves_CRL_unset [OF create_root r] have "CAData.CRL (Data rootCA) = []" by simp
  moreover have "CAData.crl (Data rootCA) = None" by (simp add: rootCA_def)
  moreover have "LoadFile ref_env
      [filepath_Join ref_env [''root.test'', ''ca''], ''root.test'' @ crlExtension] world1
      = (''X509 CRL:'', None)"
    by code_simp
  ultimately show ?thesis using create_root by simp
qed

section \<open>Properties of \<open>loadCA\<close>\<close>

lemma loadCA_NotFound:
  "\<not> CAStorage env commonName' w \<Longrightarrow> loadCA env commonName' c w = Return (Some ErrCALoadNotFound, c)"
  by (simp add: loadCA_def)

lemma loadCA_key_unreadable:
  "CAStorage env commonName' w \<Longrightarrow>
   LoadFile env [filepath_Join env [commonName', ''ca''], ''key.pem''] w = (keyString, Some e) \<Longrightarrow>
   loadCA env commonName' c w = Return (Some e, c)"
  by (simp add: loadCA_def)

lemma loadCA_key_unparsable:
  "CAStorage env commonName' w \<Longrightarrow>
   LoadFile env [filepath_Join env [commonName', ''ca''], ''key.pem''] w = (keyString, None) \<Longrightarrow>
   LoadPrivateKey env keyString = (k0, Some e) \<Longrightarrow>
   loadCA env commonName' c w = Return (Some e, c)"
  by (cases k0) (simp_all add: loadCA_def)

lemma loadCA_pub_unreadable:
  "CAStorage env commonName' w \<Longrightarrow>
   LoadFile env [filepath_Join env [commonName', ''ca''], ''key.pem''] w = (keyString, None) \<Longrightarrow>
   LoadPrivateKey env keyString = (Some k, None) \<Longrightarrow>
   LoadFile env [filepath_Join env [commonName', ''ca''], ''key.pub''] w = (pubString, Some e) \<Longrightarrow>
   loadCA env commonName' c w = Return (Some e, c)"
  by (simp add: loadCA_def)

lemma loadCA_pub_unparsable:
  "CAStorage env commonName' w \<Longrightarrow>
   LoadFile env [filepath_Join env [commonName', ''ca''], ''key.pem''] w = (keyString, None) \<Longrightarrow>
   LoadPrivateKey env keyString = (Some k, None) \<Longrightarrow>
   LoadFile env [filepath_Join env [commonName', ''ca''], ''key.pub''] w = (pubString, None) \<Longrightarrow>
   LoadPublicKey env pubString = (p0, Some e) \<Longrightarrow>
   loadCA env commonName' c w = Return (Some e, c)"
  by (cases p0) (simp_all add: loadCA_def)

lemma loadCA_optional:
  assumes "CAStorage env commonName' w"
    and "LoadFile env [filepath_Join env [commonName', ''ca''], ''key.pem''] w = (keyString, None)"
    and "LoadPrivateKey env keyString = (Some k, None)"
    and "LoadFile env [filepath_Join env [commonName', ''ca''], ''key.pub''] w = (pubString, None)"
    and "LoadPublicKey env pubString = (Some p, None)"
  shows "loadCA env commonName' c w =
     (case optional_artifact
             (LoadFile env [filepath_Join env [commonName', ''ca''], commonName' @ csrExtension] w)
             (LoadCSR env) of
        Inl e \<Rightarrow> Return (Some e, c)
      | Inr (csrString, csr') \<Rightarrow>
     (case optional_artifact
             (LoadFile env [filepath_Join env [commonName', ''ca''], commonName' @ certExtension] w)
             (LoadCert env) of
        Inl e \<Rightarrow> Return (Some e, c)
      | Inr (certString, cert') \<Rightarrow>
     (case optional_artifact
             (LoadFile env [filepath_Join env [commonName', ''ca''], CommonName c @ crlExtension] w)
             (LoadCRL env) of
        Inl e \<Rightarrow> Return (Some e, c)
      | Inr (crlString, crl') \<Rightarrow>
          Return (None, c\<lparr>Data :=
            \<lparr>CAData.CRL = crlString, CAData.Certificate = certString, CAData.CSR = csrString,
             CAData.PrivateKey = keyString, CAData.PublicKey = pubString,
             CAData.privateKey = k, CAData.certificate = cert', CAData.publicKey = p,
             CAData.csr = csr', CAData.crl = crl', CAData.IsIntermediate = False\<rparr>\<rparr>))))"
proof -
  obtain b1 l1 where f1:
    "LoadFile env [filepath_Join env [commonName', ''ca''], commonName' @ csrExtension] w = (b1, l1)"
    by (metis surj_pair)
  obtain q1 e1 where p1: "LoadCSR env b1 = (q1, e1)" by (metis surj_pair)
  obtain b2 l2 where f2:
    "LoadFile env [filepath_Join env [commonName', ''ca''], commonName' @ certExtension] w = (b2, l2)"
    by (metis surj_pair)
  obtain q2 e2 where p2: "LoadCert env b2 = (q2, e2)" by (metis surj_pair)
  obtain b3 l3 where f3:
    "LoadFile env [filepath_Join env [commonName', ''ca''], CommonName c @ crlExtension] w = (b3, l3)"
    by (metis surj_pair)
  obtain q3 e3 where p3: "LoadCRL env b3 = (q3, e3)" by (metis surj_pair)
  show ?thesis
    using assms f1 p1 f2 p2 f3 p3
    by (cases l1; cases e1; cases l2; cases e2; cases l3; cases e3)
       (simp_all add: loadCA_def Let_def optional_artifact_def CAData_zero_def)
qed

text \<open>
  C7. \<open>loadCA\<close> returns \<open>ErrCALoadNotFound\<close> for a name the store does not know. For a
  known name, an error reading \<open>key.pem\<close>, parsing it, reading \<open>key.pub\<close> or parsing it is
  returned, the receiver unchanged. When both keys are read and parsed, the request, the
  certificate and the CRL each follow the rule of an optional artifact: a file that cannot
  be read leaves its fields empty, a file that is read and does not parse makes \<open>loadCA\<close>
  return the parse error, and otherwise the receiver gets the data read. (The CRL file is
  named after the receiver's common name, line 268.)
\<close>

theorem loadCA_required_and_optional:
  "(\<not> CAStorage env commonName' w \<longrightarrow>
      loadCA env commonName' c w = Return (Some ErrCALoadNotFound, c))
 \<and> (CAStorage env commonName' w \<longrightarrow>
      (LoadFile env [filepath_Join env [commonName', ''ca''], ''key.pem''] w = (keyString, Some e1) \<longrightarrow>
         loadCA env commonName' c w = Return (Some e1, c))
    \<and> (LoadFile env [filepath_Join env [commonName', ''ca''], ''key.pem''] w = (keyString, None) \<longrightarrow>
         (LoadPrivateKey env keyString = (k0, Some e2) \<longrightarrow>
            loadCA env commonName' c w = Return (Some e2, c))
       \<and> (LoadPrivateKey env keyString = (Some k, None) \<longrightarrow>
            (LoadFile env [filepath_Join env [commonName', ''ca''], ''key.pub''] w = (pubString, Some e3) \<longrightarrow>
               loadCA env commonName' c w = Return (Some e3, c))
          \<and> (LoadFile env [filepath_Join env [commonName', ''ca''], ''key.pub''] w = (pubString, None) \<longrightarrow>
               (LoadPublicKey env pubString = (p0, Some e4) \<longrightarrow>
                  loadCA env commonName' c w = Return (Some e4, c))
             \<and> (LoadPublicKey env pubString = (Some p, None) \<longrightarrow>
                  loadCA env commonName' c w =
                    (case optional_artifact
                            (LoadFile env [filepath_Join env [commonName', ''ca''], commonName' @ csrExtension] w) (LoadCSR env) of
                       Inl e \<Rightarrow> Return (Some e, c)
                     | Inr (csrString, csr') \<Rightarrow>
                    (case optional_artifact
                            (LoadFile env [filepath_Join env [commonName', ''ca''], commonName' @ certExtension] w) (LoadCert env) of
                       Inl e \<Rightarrow> Return (Some e, c)
                     | Inr (certString, cert') \<Rightarrow>
                    (case optional_artifact
                            (LoadFile env [filepath_Join env [commonName', ''ca''], CommonName c @ crlExtension] w) (LoadCRL env) of
                       Inl e \<Rightarrow> Return (Some e, c)
                     | Inr (crlString, crl') \<Rightarrow>
                         Return (None, c\<lparr>Data :=
                           \<lparr>CAData.CRL = crlString, CAData.Certificate = certString,
                            CAData.CSR = csrString, CAData.PrivateKey = keyString,
                            CAData.PublicKey = pubString, CAData.privateKey = k,
                            CAData.certificate = cert', CAData.publicKey = p,
                            CAData.csr = csr', CAData.crl = crl',
                            CAData.IsIntermediate = False\<rparr>\<rparr>)))))))))"
  by (intro conjI impI)
     (rule loadCA_NotFound loadCA_key_unreadable loadCA_key_unparsable loadCA_pub_unreadable
        loadCA_pub_unparsable loadCA_optional; assumption)+

theorem loadCA_required_and_optional_witness:
  "loadCA ref_env ''root.test'' (newCA ''root.test'') world0
     = Return (Some ErrCALoadNotFound, newCA ''root.test'')
   \<and> loadCA ref_env ''root.test'' (newCA ''root.test'')
       (write_file ''/ca/root.test/ca/key.pem'' ''garbage'' world1)
     = Return (Some (ErrOther ''bad private key''), newCA ''root.test'')
   \<and> loadCA ref_env ''root.test'' (newCA ''root.test'')
       (write_file ''/ca/root.test/ca/root.test.crt'' ''garbage'' world1)
     = Return (Some (ErrOther ''bad certificate''), newCA ''root.test'')
   \<and> LoadFile ref_env [''root.test/ca'', ''root.test.csr''] world1
     = ([], Some (ErrOther ''no such file''))
   \<and> loadCA ref_env ''root.test'' (newCA ''root.test'') world1
     = Return (None, rootCA\<lparr>Data := (Data rootCA)
         \<lparr>CAData.PublicKey := ''PUBLIC KEY:pub-root.test'',
          CAData.CRL := ''X509 CRL:'',
          CAData.crl := Some \<lparr>TBSCertList_RevokedCertificates = [], crl_Raw = []\<rparr>\<rparr>\<rparr>)"
proof -
  let ?c = "newCA ''root.test''"
  let ?bk = "write_file ''/ca/root.test/ca/key.pem'' ''garbage'' world1"
  let ?bc = "write_file ''/ca/root.test/ca/root.test.crt'' ''garbage'' world1"
  let ?D = "filepath_Join ref_env [''root.test'', ''ca'']"
  note T = loadCA_required_and_optional
    [where env = ref_env and commonName' = "''root.test''" and c = ?c]
  have n0: "\<not> CAStorage ref_env ''root.test'' world0" by code_simp
  from T [where w = world0] n0
  have r0: "loadCA ref_env ''root.test'' ?c world0 = Return (Some ErrCALoadNotFound, ?c)"
    by blast
  have s1: "CAStorage ref_env ''root.test'' ?bk" by code_simp
  have f1: "LoadFile ref_env [?D, ''key.pem''] ?bk = (''garbage'', None)" by code_simp
  have p1: "LoadPrivateKey ref_env ''garbage'' = (None, Some (ErrOther ''bad private key''))"
    by code_simp
  from T [where w = ?bk and keyString = "''garbage''" and ?k0.0 = None
            and ?e2.0 = "ErrOther ''bad private key''"] s1 f1 p1
  have r1: "loadCA ref_env ''root.test'' ?c ?bk = Return (Some (ErrOther ''bad private key''), ?c)"
    by blast
  have key: "LoadFile ref_env [?D, ''key.pem''] w = (''PRIVATE KEY:priv-root.test'', None)"
    "LoadPrivateKey ref_env ''PRIVATE KEY:priv-root.test'' = (Some (RsaPrivateKey ''priv-root.test''), None)"
    "LoadFile ref_env [?D, ''key.pub''] w = (''PUBLIC KEY:pub-root.test'', None)"
    "LoadPublicKey ref_env ''PUBLIC KEY:pub-root.test'' = (Some (RsaPublicKey ''pub-root.test''), None)"
    "CAStorage ref_env ''root.test'' w"
    if "w = world1 \<or> w = ?bc" for w
    using that by (auto; code_simp)+
  from T [where w = ?bc and keyString = "''PRIVATE KEY:priv-root.test''"
            and k = "RsaPrivateKey ''priv-root.test''"
            and pubString = "''PUBLIC KEY:pub-root.test''"
            and p = "RsaPublicKey ''pub-root.test''"] key [of ?bc]
  have "loadCA ref_env ''root.test'' ?c ?bc =
      (case optional_artifact
              (LoadFile ref_env [?D, ''root.test'' @ csrExtension] ?bc) (LoadCSR ref_env) of
         Inl e \<Rightarrow> Return (Some e, ?c)
       | Inr (csrString, csr') \<Rightarrow>
      (case optional_artifact
              (LoadFile ref_env [?D, ''root.test'' @ certExtension] ?bc) (LoadCert ref_env) of
         Inl e \<Rightarrow> Return (Some e, ?c)
       | Inr (certString, cert') \<Rightarrow>
      (case optional_artifact
              (LoadFile ref_env [?D, CommonName ?c @ crlExtension] ?bc) (LoadCRL ref_env) of
         Inl e \<Rightarrow> Return (Some e, ?c)
       | Inr (crlString, crl') \<Rightarrow>
           Return (None, ?c\<lparr>Data :=
             \<lparr>CAData.CRL = crlString, CAData.Certificate = certString,
              CAData.CSR = csrString, CAData.PrivateKey = ''PRIVATE KEY:priv-root.test'',
              CAData.PublicKey = ''PUBLIC KEY:pub-root.test'',
              CAData.privateKey = RsaPrivateKey ''priv-root.test'',
              CAData.certificate = cert', CAData.publicKey = RsaPublicKey ''pub-root.test'',
              CAData.csr = csr', CAData.crl = crl',
              CAData.IsIntermediate = False\<rparr>\<rparr>))))"
    by blast
  also have "\<dots> = Return (Some (ErrOther ''bad certificate''), ?c)"
    by code_simp
  finally have r2: "loadCA ref_env ''root.test'' ?c ?bc
      = Return (Some (ErrOther ''bad certificate''), ?c)" .
  from T [where w = world1 and keyString = "''PRIVATE KEY:priv-root.test''"
            and k = "RsaPrivateKey ''priv-root.test''"
            and pubString = "''PUBLIC KEY:pub-root.test''"
            and p = "RsaPublicKey ''pub-root.test''"] key [of world1]
  have "loadCA ref_env ''root.test'' ?c world1 =
      (case optional_artifact
              (LoadFile ref_env [?D, ''root.test'' @ csrExtension] world1) (LoadCSR ref_env) of
         Inl e \<Rightarrow> Return (Some e, ?c)
       | Inr (csrString, csr') \<Rightarrow>
      (case optional_artifact
              (LoadFile ref_env [?D, ''root.test'' @ certExtension] world1) (LoadCert ref_env) of
         Inl e \<Rightarrow> Return (Some e, ?c)
       | Inr (certString, cert') \<Rightarrow>
      (case optional_artifact
              (LoadFile ref_env [?D, CommonName ?c @ crlExtension] world1) (LoadCRL ref_env) of
         Inl e \<Rightarrow> Return (Some e, ?c)
       | Inr (crlString, crl') \<Rightarrow>
           Return (None, ?c\<lparr>Data :=
             \<lparr>CAData.CRL = crlString, CAData.Certificate = certString,
              CAData.CSR = csrString, CAData.PrivateKey = ''PRIVATE KEY:priv-root.test'',
              CAData.PublicKey = ''PUBLIC KEY:pub-root.test'',
              CAData.privateKey = RsaPrivateKey ''priv-root.test'',
              CAData.certificate = cert', CAData.publicKey = RsaPublicKey ''pub-root.test'',
              CAData.csr = csr', CAData.crl = crl',
              CAData.IsIntermediate = False\<rparr>\<rparr>))))"
    by blast
  also have "\<dots> = Return (None, rootCA\<lparr>Data := (Data rootCA)
         \<lparr>CAData.PublicKey := ''PUBLIC KEY:pub-root.test'',
          CAData.CRL := ''X509 CRL:'',
          CAData.crl := Some \<lparr>TBSCertList_RevokedCertificates = [], crl_Raw = []\<rparr>\<rparr>\<rparr>)"
    by code_simp
  finally have r3: "loadCA ref_env ''root.test'' ?c world1
      = Return (None, rootCA\<lparr>Data := (Data rootCA)
         \<lparr>CAData.PublicKey := ''PUBLIC KEY:pub-root.test'',
          CAData.CRL := ''X509 CRL:'',
          CAData.crl := Some \<lparr>TBSCertList_RevokedCertificates = [], crl_Raw = []\<rparr>\<rparr>\<rparr>)" .
  have absent: "LoadFile ref_env [''root.test/ca'', ''root.test.csr''] world1
     = ([], Some (ErrOther ''no such file''))"
    by code_simp
  from r0 r1 r2 r3 absent show ?thesis by simp
qed

section \<open>Properties of \<open>loadCertificate\<close>\<close>







section \<open>Properties of \<open>signCSR\<close> and \<open>issueCertificate\<close>\<close>

lemma signCSR_knownCAs_copy:
  assumes "Certificate.commonName certificate' \<in> set knownCAs"
  shows "signCSR_knownCAs env c certificate' knownCAs w =
     (case CopyFile env
             (filepath_Join env
                [CommonName c, ''certs'', Certificate.commonName certificate',
                 Certificate.commonName certificate' @ certExtension])
             (filepath_Join env
                [Certificate.commonName certificate', ''ca'',
                 Certificate.commonName certificate' @ certExtension]) w of
        (r, w1) \<Rightarrow> ((certificate', r), w1))"
  using assms
  by (induction knownCAs) (auto simp: Let_def split: prod.splits option.splits)

lemma signCSR_knownCAs_none:
  assumes "Certificate.commonName certificate' \<notin> set knownCAs"
  shows "signCSR_knownCAs env c certificate' knownCAs w = ((certificate', None), w)"
  using assms by (induction knownCAs) auto

text \<open>
  C8. The request stored under the CA, if there is one, parses; signing succeeds with the
  bytes \<open>certBytes\<close>, which parse; and the subject's common name is a CA that \<open>List\<close>
  reports. Then \<open>signCSR\<close> copies the certificate file from the signing CA's \<open>certs\<close>
  directory into the \<open>ca\<close> directory of that CA, and returns what the copy returned: nil,
  or the copy's error. In both cases the returned \<open>Certificate\<close> carries the signed
  certificate, and the world is the one the copy left, with the signing in it.
\<close>

theorem signCSR_copies_to_known_CA:
  assumes pre: "snd (LoadFile env [CommonName c, ''cert'', Subject_CommonName csr' @ csrExtension] w) \<noteq> None
       \<or> snd (LoadCSR env
              (fst (LoadFile env [CommonName c, ''cert'', Subject_CommonName csr' @ csrExtension] w)))
           = None"
    and sign: "CASignCSR env (CommonName c) csr' (CAData.certificate (Data c))
         (CAData.privateKey (Data c)) valid CreationTypeCertificate w = ((certBytes, None), w1)"
    and parse: "x509_ParseCertificate env certBytes = (cert', None)"
    and known: "Subject_CommonName csr' \<in> set (ListCAs env w1)"
    and copy: "CopyFile env
         (filepath_Join env [CommonName c, ''certs'', Subject_CommonName csr',
                             Subject_CommonName csr' @ certExtension])
         (filepath_Join env [Subject_CommonName csr', ''ca'',
                             Subject_CommonName csr' @ certExtension]) w1 = (r, w2)"
  shows "\<exists>certificate'.
           signCSR env csr' valid c w = ((certificate', r), w2)
         \<and> Certificate.Certificate certificate' = pem_Encode env ''CERTIFICATE'' certBytes
         \<and> Certificate.certificate certificate' = cert'"
proof -
  obtain b l where f: "LoadFile env [CommonName c, ''cert'', Subject_CommonName csr' @ csrExtension] w = (b, l)"
    by (metis surj_pair)
  obtain q e where p: "LoadCSR env b = (q, e)" by (metis surj_pair)
  show ?thesis
    using pre sign parse known copy f p
    by (cases l; cases e)
       (simp_all add: signCSR_def Let_def Certificate_zero_def signCSR_knownCAs_copy)
qed

theorem signCSR_copies_to_known_CA_witness:
  "create ref_env ''child'' ''root.test'' (identity0\<lparr>Intermediate := True\<rparr>) (newCA ''child'') world1
     = (None,
        fst (snd (create ref_env ''child'' ''root.test'' (identity0\<lparr>Intermediate := True\<rparr>)
                    (newCA ''child'') world1)),
        world3)
   \<and> CAStorage ref_env ''child'' world3
   \<and> Subject_CommonName childCSR \<in> set (ListCAs ref_env world3)
   \<and> Subject_CommonName childCSR \<noteq> CommonName rootCA
   \<and> LoadFile ref_env [''child'', ''ca'', ''child.crt''] world3
       = (''CERTIFICATE:+11|child<root.test'', None)
   \<and> (\<exists>certificate' w2.
        signCSR ref_env childCSR 100 rootCA world3 = ((certificate', None), w2)
      \<and> Certificate.Certificate certificate' = ''CERTIFICATE:+111|child<root.test''
      \<and> Certificate.certificate certificate'
          = Some \<lparr>x509_Certificate.SerialNumber = 3, cert_Raw = ''child<root.test''\<rparr>
      \<and> LoadFile ref_env [''child'', ''ca'', ''child.crt''] w2
          = (''CERTIFICATE:+111|child<root.test'', None)
      \<and> LoadFile ref_env [''root.test'', ''certs'', ''child'', ''child.crt''] w2
          = (''CERTIFICATE:+111|child<root.test'', None))
   \<and> \<not> CAStorage ref_env ''child'' (make_dir ''/ca/child'' world1)
   \<and> Subject_CommonName childCSR \<in> set (ListCAs ref_env (make_dir ''/ca/child'' world1))
   \<and> (\<exists>certificate'.
        signCSR ref_env childCSR 100 rootCA (make_dir ''/ca/child'' world1)
          = ((certificate', Some (ErrOther ''no such directory'')),
             snd (CASignCSR ref_env ''root.test'' childCSR (CAData.certificate (Data rootCA))
                    (CAData.privateKey (Data rootCA)) 100 CreationTypeCertificate
                    (make_dir ''/ca/child'' world1)))
      \<and> Certificate.Certificate certificate' = ''CERTIFICATE:+11|child<root.test''
      \<and> Certificate.certificate certificate'
          = Some \<lparr>x509_Certificate.SerialNumber = 2, cert_Raw = ''child<root.test''\<rparr>)"
proof -
  have n: "CommonName rootCA = ''root.test''" by (simp add: rootCA_def)
  have made: "create ref_env ''child'' ''root.test'' (identity0\<lparr>Intermediate := True\<rparr>)
      (newCA ''child'') world1
     = (None,
        fst (snd (create ref_env ''child'' ''root.test'' (identity0\<lparr>Intermediate := True\<rparr>)
                    (newCA ''child'') world1)),
        world3)"
    by code_simp
  have held: "CAStorage ref_env ''child'' world3" by code_simp
  have listed: "Subject_CommonName childCSR \<in> set (ListCAs ref_env world3)" by code_simp
  have other: "Subject_CommonName childCSR \<noteq> CommonName rootCA" by code_simp
  have before: "LoadFile ref_env [''child'', ''ca'', ''child.crt''] world3
       = (''CERTIFICATE:+11|child<root.test'', None)"
    by code_simp
  let ?s1 = "snd (CASignCSR ref_env ''root.test'' childCSR (CAData.certificate (Data rootCA))
                    (CAData.privateKey (Data rootCA)) 100 CreationTypeCertificate world3)"
  let ?src = "filepath_Join ref_env [CommonName rootCA, ''certs'', Subject_CommonName childCSR,
                              Subject_CommonName childCSR @ certExtension]"
  let ?dst = "filepath_Join ref_env [Subject_CommonName childCSR, ''ca'',
                              Subject_CommonName childCSR @ certExtension]"
  let ?s2 = "snd (CopyFile ref_env ?src ?dst ?s1)"
  have pre3: "snd (LoadFile ref_env
        [CommonName rootCA, ''cert'', Subject_CommonName childCSR @ csrExtension] world3) \<noteq> None
     \<or> snd (LoadCSR ref_env (fst (LoadFile ref_env
        [CommonName rootCA, ''cert'', Subject_CommonName childCSR @ csrExtension] world3))) = None"
    by code_simp
  have sign3: "CASignCSR ref_env (CommonName rootCA) childCSR (CAData.certificate (Data rootCA))
      (CAData.privateKey (Data rootCA)) 100 CreationTypeCertificate world3
      = ((''+111|child<root.test'', None), ?s1)"
    by code_simp
  have parse3: "x509_ParseCertificate ref_env ''+111|child<root.test''
      = (Some \<lparr>x509_Certificate.SerialNumber = 3, cert_Raw = ''child<root.test''\<rparr>, None)"
    by code_simp
  have known3: "Subject_CommonName childCSR \<in> set (ListCAs ref_env ?s1)"
    by code_simp
  have copy3: "CopyFile ref_env ?src ?dst ?s1 = (None, ?s2)"
    by code_simp
  have after: "LoadFile ref_env [''child'', ''ca'', ''child.crt''] ?s2
          = (''CERTIFICATE:+111|child<root.test'', None)"
    "LoadFile ref_env [''root.test'', ''certs'', ''child'', ''child.crt''] ?s2
          = (''CERTIFICATE:+111|child<root.test'', None)"
    by code_simp+
  from signCSR_copies_to_known_CA [OF pre3 sign3 parse3 known3 copy3] after
  have success: "\<exists>certificate' w2.
        signCSR ref_env childCSR 100 rootCA world3 = ((certificate', None), w2)
      \<and> Certificate.Certificate certificate' = ''CERTIFICATE:+111|child<root.test''
      \<and> Certificate.certificate certificate'
          = Some \<lparr>x509_Certificate.SerialNumber = 3, cert_Raw = ''child<root.test''\<rparr>
      \<and> LoadFile ref_env [''child'', ''ca'', ''child.crt''] w2
          = (''CERTIFICATE:+111|child<root.test'', None)
      \<and> LoadFile ref_env [''root.test'', ''certs'', ''child'', ''child.crt''] w2
          = (''CERTIFICATE:+111|child<root.test'', None)"
    by (auto simp add: ref_env_def ref_pem_Encode_def)
  let ?w = "make_dir ''/ca/child'' world1"
  let ?w1 = "snd (CASignCSR ref_env ''root.test'' childCSR (CAData.certificate (Data rootCA))
                    (CAData.privateKey (Data rootCA)) 100 CreationTypeCertificate ?w)"
  have pre: "snd (LoadFile ref_env
        [CommonName rootCA, ''cert'', Subject_CommonName childCSR @ csrExtension] ?w) \<noteq> None
     \<or> snd (LoadCSR ref_env (fst (LoadFile ref_env
        [CommonName rootCA, ''cert'', Subject_CommonName childCSR @ csrExtension] ?w))) = None"
    by code_simp
  have sign: "CASignCSR ref_env (CommonName rootCA) childCSR (CAData.certificate (Data rootCA))
      (CAData.privateKey (Data rootCA)) 100 CreationTypeCertificate ?w
      = ((''+11|child<root.test'', None), ?w1)"
    by code_simp
  have parse: "x509_ParseCertificate ref_env ''+11|child<root.test''
      = (Some \<lparr>x509_Certificate.SerialNumber = 2, cert_Raw = ''child<root.test''\<rparr>, None)"
    by code_simp
  have known: "Subject_CommonName childCSR \<in> set (ListCAs ref_env ?w1)"
    by code_simp
  have copy: "CopyFile ref_env ?src ?dst ?w1 = (Some (ErrOther ''no such directory''), ?w1)"
    by code_simp
  have a: "Subject_CommonName childCSR \<in> set (ListCAs ref_env ?w)" by code_simp
  have b: "\<not> CAStorage ref_env ''child'' ?w" by code_simp
  from signCSR_copies_to_known_CA [OF pre sign parse known copy] n
  have failure: "\<exists>certificate'.
        signCSR ref_env childCSR 100 rootCA ?w
          = ((certificate', Some (ErrOther ''no such directory'')), ?w1)
      \<and> Certificate.Certificate certificate' = ''CERTIFICATE:+11|child<root.test''
      \<and> Certificate.certificate certificate'
          = Some \<lparr>x509_Certificate.SerialNumber = 2, cert_Raw = ''child<root.test''\<rparr>"
    by (simp add: ref_env_def ref_pem_Encode_def)
  from made held listed other before success b a failure show ?thesis
    by (intro conjI)
qed

text \<open>
  C9. In the \<open>Certificate\<close> that \<open>issueCertificate\<close> returns with a nil error,
  \<open>CACertificate\<close> is the certificate text of the issuing CA, and the certificate fields are
  the PEM encoding and the parse of the bytes that \<open>cert.CASignCSR\<close> returned for the
  certificate's own request, called with the CA's name, certificate and private key and
  the identity's validity.
\<close>

theorem issueCertificate_result:
  assumes ok: "issueCertificate env commonName' id' c w = (Return (certificate', None), w')"
  shows "Certificate.CACertificate certificate' = CAData.Certificate (Data c)
       \<and> (\<exists>csr' certBytes w0.
             CASignCSR env (CommonName c) csr' (CAData.certificate (Data c))
               (CAData.privateKey (Data c)) (Valid id') CreationTypeCertificate w0
               = ((certBytes, None), w')
           \<and> Certificate.csr certificate' = csr'
           \<and> Certificate.Certificate certificate' = pem_Encode env ''CERTIFICATE'' certBytes
           \<and> Certificate.certificate certificate' = fst (x509_ParseCertificate env certBytes))"
proof -
  obtain certKeys r1 w1 where m1:
    "CreateKeys env (CommonName c) commonName' CreationTypeCertificate (KeyBitSize id') w
       = ((certKeys, r1), w1)"
    by (metis surj_pair)
  have r1: "r1 = None"
    using ok m1 by (cases r1) (simp_all add: issueCertificate_def Let_def)
  obtain csrBytes r2 w2 where m2:
    "CreateCSR env (CommonName c) commonName' (Country id') (Province id') (Locality id')
       (Organization id') (OrganizationalUnit id') (EmailAddresses id') (DNSNames id')
       (Key certKeys) CreationTypeCertificate w1 = ((csrBytes, r2), w2)"
    by (metis surj_pair)
  have r2: "r2 = None"
    using ok m1 r1 m2 by (cases r2) (simp_all add: issueCertificate_def Let_def)
  obtain csr' where m3: "fst (x509_ParseCertificateRequest env csrBytes) = Some csr'"
    using ok m1 r1 m2 r2
    by (cases "fst (x509_ParseCertificateRequest env csrBytes)")
       (simp_all add: issueCertificate_def Let_def)
  obtain certBytes r4 w4 where m4:
    "CASignCSR env (CommonName c) csr' (CAData.certificate (Data c))
       (CAData.privateKey (Data c)) (Valid id') CreationTypeCertificate w2
       = ((certBytes, r4), w4)"
    by (metis surj_pair)
  have r4: "r4 = None"
    using ok m1 r1 m2 r2 m3 m4 by (cases r4) (simp_all add: issueCertificate_def Let_def)
  obtain cert' r5 where m5: "x509_ParseCertificate env certBytes = (cert', r5)"
    by (metis surj_pair)
  have fin: "w' = w4
      \<and> Certificate.CACertificate certificate' = CAData.Certificate (Data c)
      \<and> Certificate.csr certificate' = csr'
      \<and> Certificate.Certificate certificate' = pem_Encode env ''CERTIFICATE'' certBytes
      \<and> Certificate.certificate certificate' = cert'"
    using ok m1 r1 m2 r2 m3 m4 r4 m5
    by (cases r5) (auto simp add: issueCertificate_def Let_def Certificate_zero_def)
  with m4 r4 m5 show ?thesis by auto
qed

theorem issueCertificate_result_witness:
  "issueCertificate ref_env ''leaf.test'' identity0 rootCA world1
     = (Return (leafIssued, None),
        snd (issueCertificate ref_env ''leaf.test'' identity0 rootCA world1))
   \<and> Certificate.CACertificate leafIssued = CAData.Certificate (Data rootCA)
   \<and> Certificate.Certificate leafIssued = ''CERTIFICATE:+11|leaf.test<root.test''"
proof -
  have r: "issueCertificate ref_env ''leaf.test'' identity0 rootCA world1
     = (Return (leafIssued, None),
        snd (issueCertificate ref_env ''leaf.test'' identity0 rootCA world1))"
    by code_simp
  from issueCertificate_result [OF r]
  have "Certificate.CACertificate leafIssued = CAData.Certificate (Data rootCA)"
    by (rule conjunct1)
  moreover have "Certificate.Certificate leafIssued = ''CERTIFICATE:+11|leaf.test<root.test''"
    by (simp add: leafIssued_def)
  ultimately show ?thesis using r by simp
qed

section \<open>Properties of \<open>revokeCertificate\<close>\<close>

text \<open>The decimal text of an integer determines the integer, so the comparison of line
  462 is the comparison of the serial numbers.\<close>

lemma digit_char_inj: "a < 10 \<Longrightarrow> b < 10 \<Longrightarrow> digit_char a = digit_char b \<Longrightarrow> a = b"
proof -
  assume a: "a < 10" and b: "b < 10" and e: "digit_char a = digit_char b"
  from e have "of_char (char_of (48 + a) :: char) = (of_char (char_of (48 + b) :: char) :: nat)"
    by (simp add: digit_char_def)
  with a b show "a = b" by simp
qed

lemma digit_char_not_minus: "d < 10 \<Longrightarrow> digit_char d \<noteq> CHR ''-''"
proof
  assume d: "d < 10" and e: "digit_char d = CHR ''-''"
  from e have "of_char (char_of (48 + d) :: char) = (of_char CHR ''-'' :: nat)"
    by (simp add: digit_char_def)
  with d show False by simp
qed

lemma nat_String_nonempty: "nat_String n \<noteq> []"
  by (subst nat_String.simps) simp

lemma nat_String_inj: "nat_String n = nat_String m \<Longrightarrow> n = m"
proof (induction n arbitrary: m rule: nat_String.induct)
  case (1 n)
  show ?case
  proof (cases "n < 10")
    case True
    then have n: "nat_String n = [digit_char n]" by (subst nat_String.simps) simp
    show ?thesis
    proof (cases "m < 10")
      case m: True
      then have "nat_String m = [digit_char m]" by (subst nat_String.simps) simp
      with n "1.prems" True m show ?thesis by (auto dest: digit_char_inj)
    next
      case m: False
      then have "nat_String m = nat_String (m div 10) @ [digit_char (m mod 10)]"
        by (subst nat_String.simps) simp
      with n "1.prems" nat_String_nonempty [of "m div 10"] show ?thesis by simp
    qed
  next
    case False
    then have n: "nat_String n = nat_String (n div 10) @ [digit_char (n mod 10)]"
      by (subst nat_String.simps) simp
    show ?thesis
    proof (cases "m < 10")
      case m: True
      then have "nat_String m = [digit_char m]" by (subst nat_String.simps) simp
      with n "1.prems" nat_String_nonempty [of "n div 10"] show ?thesis by simp
    next
      case m: False
      then have "nat_String m = nat_String (m div 10) @ [digit_char (m mod 10)]"
        by (subst nat_String.simps) simp
      with n "1.prems" have a: "nat_String (n div 10) = nat_String (m div 10)"
        and b: "digit_char (n mod 10) = digit_char (m mod 10)" by simp_all
      from "1.IH" [OF False a] have "n div 10 = m div 10" .
      moreover have "n mod 10 < 10" "m mod 10 < 10" by simp_all
      then have "n mod 10 = m mod 10" using b by (rule digit_char_inj)
      ultimately show ?thesis by (metis div_mult_mod_eq)
    qed
  qed
qed

lemma nat_String_no_minus: "hd (nat_String n) \<noteq> CHR ''-''"
proof (induction n rule: nat_String.induct)
  case (1 n)
  show ?case
  proof (cases "n < 10")
    case True
    then show ?thesis by (subst nat_String.simps) (simp add: digit_char_not_minus)
  next
    case False
    with "1.IH" nat_String_nonempty [of "n div 10"] show ?thesis
      by (subst nat_String.simps) simp
  qed
qed

lemma big_String_inj: "big_String i = big_String j \<Longrightarrow> i = j"
proof -
  assume e: "big_String i = big_String j"
  have neg: False if "a < 0" "\<not> b < 0" "big_String a = big_String b" for a b
  proof -
    from that have "CHR ''-'' # nat_String (nat (- a)) = nat_String (nat b)"
      by (simp add: big_String_def)
    then have "hd (nat_String (nat b)) = CHR ''-''" by (metis list.sel(1))
    with nat_String_no_minus show False by blast
  qed
  show "i = j"
  proof (cases "i < 0"; cases "j < 0")
    assume "i < 0" "j < 0"
    with e have "nat (- i) = nat (- j)" by (auto simp add: big_String_def dest: nat_String_inj)
    with \<open>i < 0\<close> \<open>j < 0\<close> show ?thesis by simp
  next
    assume "i < 0" "\<not> j < 0" with e neg show ?thesis by blast
  next
    assume "\<not> i < 0" "j < 0" with e neg [of j i] show ?thesis by simp
  next
    assume "\<not> i < 0" "\<not> j < 0"
    with e have "nat i = nat j" by (auto simp add: big_String_def dest: nat_String_inj)
    with \<open>\<not> i < 0\<close> \<open>\<not> j < 0\<close> show ?thesis by simp
  qed
qed

lemma serial_listed_iff:
  "serial_listed rs x \<longleftrightarrow>
     x509_Certificate.SerialNumber x \<in> pkix_RevokedCertificate.SerialNumber ` set rs"
  by (induction rs) (auto dest: big_String_inj)

text \<open>
  C2. A certificate whose serial number is the serial number of an entry of the CA's
  current CRL: \<open>revokeCertificate\<close> returns \<open>ErrCertRevoked\<close>, and the receiver (the CRL
  object and the CRL text with it) and the world are the ones it was called with: nothing
  was appended, built or written.
\<close>

theorem revokeCertificate_AlreadyRevoked:
  assumes "x509_Certificate.SerialNumber certificate'
           \<in> pkix_RevokedCertificate.SerialNumber ` set (revoked_entries c)"
  shows "revokeCertificate env certificate' c w = (Some ErrCertRevoked, c, w)"
  using assms
  by (cases "GoCRL c")
     (simp_all add: revokeCertificate_def revoked_entries_def Let_def serial_listed_iff)

theorem revokeCertificate_AlreadyRevoked_witness:
  "revoked_entries revokedCA = [\<lparr>pkix_RevokedCertificate.SerialNumber = 2, RevocationTime = 7\<rparr>]
   \<and> x509_Certificate.SerialNumber leafCert = 2
   \<and> revokeCertificate ref_env leafCert revokedCA world1 = (Some ErrCertRevoked, revokedCA, world1)"
proof -
  have a: "revoked_entries revokedCA
      = [\<lparr>pkix_RevokedCertificate.SerialNumber = 2, RevocationTime = 7\<rparr>]"
    by (simp add: revoked_entries_def GoCRL_def revokedCA_def)
  have b: "x509_Certificate.SerialNumber leafCert = 2"
    by (simp add: leafCert_def)
  from a b have "x509_Certificate.SerialNumber leafCert
      \<in> pkix_RevokedCertificate.SerialNumber ` set (revoked_entries revokedCA)"
    by simp
  from revokeCertificate_AlreadyRevoked [OF this] a b show ?thesis by simp
qed

lemma revoke_error_unchanged:
  assumes "revokeCertificate env x c w = (Some e, c1, w1)"
  shows "c1 = c"
proof -
  obtain crlByte r w2 where m: "RevokeCertificate env (CommonName c)
      (revoked_entries c @ [\<lparr>pkix_RevokedCertificate.SerialNumber = x509_Certificate.SerialNumber x,
                              RevocationTime = time_Now env w\<rparr>])
      (CAData.certificate (Data c)) (CAData.privateKey (Data c)) w = ((crlByte, r), w2)"
    by (metis surj_pair)
  obtain crl' r' where p: "x509_ParseCRL env crlByte = (crl', r')" by (metis surj_pair)
  show ?thesis
    using assms m p
    by (cases "GoCRL c"; cases r; cases r')
       (auto simp add: revokeCertificate_def revoked_entries_def Let_def split: if_splits)
qed

lemma revoke_nil_step:
  assumes rt: "crl_codec_roundtrip env"
    and ok: "revokeCertificate env x c w = (None, c1, w1)"
  shows "revoked_entries c1 =
           revoked_entries c @
             [\<lparr>pkix_RevokedCertificate.SerialNumber = x509_Certificate.SerialNumber x,
               RevocationTime = time_Now env w\<rparr>]
       \<and> (\<exists>crlByte.
             RevokeCertificate env (CommonName c)
               (revoked_entries c @
                  [\<lparr>pkix_RevokedCertificate.SerialNumber = x509_Certificate.SerialNumber x,
                    RevocationTime = time_Now env w\<rparr>])
               (CAData.certificate (Data c)) (CAData.privateKey (Data c)) w = ((crlByte, None), w1)
           \<and> x509_ParseCRL env crlByte = (CAData.crl (Data c1), None))"
proof -
  let ?new = "\<lparr>pkix_RevokedCertificate.SerialNumber = x509_Certificate.SerialNumber x,
               RevocationTime = time_Now env w\<rparr>"
  obtain crlByte r w2 where m: "RevokeCertificate env (CommonName c)
      (revoked_entries c @ [?new])
      (CAData.certificate (Data c)) (CAData.privateKey (Data c)) w = ((crlByte, r), w2)"
    by (metis surj_pair)
  obtain crl' r' where p: "x509_ParseCRL env crlByte = (crl', r')" by (metis surj_pair)
  have fin: "r = None \<and> r' = None \<and> w1 = w2 \<and> CAData.crl (Data c1) = crl'"
    using ok m p
    by (cases "GoCRL c"; cases r; cases r')
       (auto simp add: revokeCertificate_def revoked_entries_def Let_def split: if_splits)
  with rt m p have "map_option TBSCertList_RevokedCertificates crl' = Some (revoked_entries c @ [?new])"
    unfolding crl_codec_roundtrip_def by blast
  with fin have "revoked_entries c1 = revoked_entries c @ [?new]"
    by (auto simp add: revoked_entries_def GoCRL_def)
  with m p fin show ?thesis by auto
qed

lemma revokeAll_grows:
  assumes rt: "crl_codec_roundtrip env"
  shows "revokeAll env xs c w = (n, c2, w2) \<Longrightarrow>
         \<exists>added. revoked_entries c2 = revoked_entries c @ added \<and> length added = n"
proof (induction xs arbitrary: c w n c2 w2)
  case Nil
  then show ?case by simp
next
  case (Cons x xs)
  obtain r c1 w1 where s: "revokeCertificate env x c w = (r, c1, w1)"
    by (metis prod_cases3)
  obtain m c3 w3 where t: "revokeAll env xs c1 w1 = (m, c3, w3)"
    by (metis prod_cases3)
  from Cons.IH [OF t] obtain added where
    a: "revoked_entries c3 = revoked_entries c1 @ added" "length added = m" by blast
  from Cons.prems s t have e: "n = (if r = None then Suc m else m)" "c2 = c3" by simp_all
  show ?case
  proof (cases r)
    case None
    with s revoke_nil_step [OF rt] have "\<exists>new. revoked_entries c1 = revoked_entries c @ [new]"
      by blast
    then obtain new where "revoked_entries c1 = revoked_entries c @ [new]" ..
    with a e None show ?thesis by simp
  next
    case (Some err)
    with s have "revokeCertificate env x c w = (Some err, c1, w1)" by simp
    then have "c1 = c" by (rule revoke_error_unchanged)
    with a e Some show ?thesis by simp
  qed
qed

lemma revoke_new_serial:
  assumes new: "x509_Certificate.SerialNumber x
           \<notin> pkix_RevokedCertificate.SerialNumber ` set (revoked_entries c)"
    and build: "RevokeCertificate env (CommonName c)
           (revoked_entries c @
              [\<lparr>pkix_RevokedCertificate.SerialNumber = x509_Certificate.SerialNumber x,
                RevocationTime = time_Now env w\<rparr>])
           (CAData.certificate (Data c)) (CAData.privateKey (Data c)) w = ((crlByte, None), w1)"
    and parse: "x509_ParseCRL env crlByte = (crl', None)"
  shows "fst (revokeCertificate env x c w) = None"
  using assms
  by (cases "GoCRL c")
     (simp_all add: revokeCertificate_def revoked_entries_def Let_def serial_listed_iff)

text \<open>
  C3. Under the codec's contract. A certificate whose serial number is in no entry of the
  current CRL passes the check of lines 461 to 465, and is revoked when building and parsing
  the new list succeed. Whenever \<open>revokeCertificate\<close> returns nil, the list was built over
  all the entries of the current CRL followed by one new entry, the certificate's serial
  number with the current time; the CA's CRL is the parse of that list, and its entries
  are exactly those. So over any sequence of revoke operations the entries a CA started
  with stay, in their order, and one entry is added for each operation that returned nil.
\<close>

theorem revokeCertificate_appends:
  assumes rt: "crl_codec_roundtrip env"
  shows "(x509_Certificate.SerialNumber x
            \<notin> pkix_RevokedCertificate.SerialNumber ` set (revoked_entries c)
          \<and> RevokeCertificate env (CommonName c)
               (revoked_entries c @
                  [\<lparr>pkix_RevokedCertificate.SerialNumber = x509_Certificate.SerialNumber x,
                    RevocationTime = time_Now env w\<rparr>])
               (CAData.certificate (Data c)) (CAData.privateKey (Data c)) w
              = ((crlByte, None), w1)
          \<and> x509_ParseCRL env crlByte = (crl', None)
          \<longrightarrow> fst (revokeCertificate env x c w) = None)
       \<and> (revokeCertificate env x c w = (None, c1, w1) \<longrightarrow>
            revoked_entries c1 =
              revoked_entries c @
                [\<lparr>pkix_RevokedCertificate.SerialNumber = x509_Certificate.SerialNumber x,
                  RevocationTime = time_Now env w\<rparr>]
          \<and> (\<exists>crlByte.
                RevokeCertificate env (CommonName c)
                  (revoked_entries c @
                     [\<lparr>pkix_RevokedCertificate.SerialNumber = x509_Certificate.SerialNumber x,
                       RevocationTime = time_Now env w\<rparr>])
                  (CAData.certificate (Data c)) (CAData.privateKey (Data c)) w
                 = ((crlByte, None), w1)
              \<and> x509_ParseCRL env crlByte = (CAData.crl (Data c1), None)))
       \<and> (revokeAll env xs c w = (n, c2, w2) \<longrightarrow>
            (\<exists>added. revoked_entries c2 = revoked_entries c @ added \<and> length added = n))"
proof (intro conjI impI)
  assume "x509_Certificate.SerialNumber x
            \<notin> pkix_RevokedCertificate.SerialNumber ` set (revoked_entries c)
          \<and> RevokeCertificate env (CommonName c)
               (revoked_entries c @
                  [\<lparr>pkix_RevokedCertificate.SerialNumber = x509_Certificate.SerialNumber x,
                    RevocationTime = time_Now env w\<rparr>])
               (CAData.certificate (Data c)) (CAData.privateKey (Data c)) w
              = ((crlByte, None), w1)
          \<and> x509_ParseCRL env crlByte = (crl', None)"
  then show "fst (revokeCertificate env x c w) = None"
    by (elim conjE) (rule revoke_new_serial)
next
  assume ok: "revokeCertificate env x c w = (None, c1, w1)"
  from revoke_nil_step [OF rt ok]
  show "revoked_entries c1 =
              revoked_entries c @
                [\<lparr>pkix_RevokedCertificate.SerialNumber = x509_Certificate.SerialNumber x,
                  RevocationTime = time_Now env w\<rparr>]"
    by (rule conjunct1)
  from revoke_nil_step [OF rt ok]
  show "\<exists>crlByte.
                RevokeCertificate env (CommonName c)
                  (revoked_entries c @
                     [\<lparr>pkix_RevokedCertificate.SerialNumber = x509_Certificate.SerialNumber x,
                       RevocationTime = time_Now env w\<rparr>])
                  (CAData.certificate (Data c)) (CAData.privateKey (Data c)) w
                 = ((crlByte, None), w1)
              \<and> x509_ParseCRL env crlByte = (CAData.crl (Data c1), None)"
    by (rule conjunct2)
next
  assume "revokeAll env xs c w = (n, c2, w2)"
  then show "\<exists>added. revoked_entries c2 = revoked_entries c @ added \<and> length added = n"
    by (rule revokeAll_grows [OF rt])
qed

theorem revokeCertificate_appends_witness:
  "revoked_entries rootCA = []
   \<and> fst (revokeCertificate ref_env leafCert rootCA world1) = None
   \<and> revoked_entries (fst (snd (revokeCertificate ref_env leafCert rootCA world1)))
       = [\<lparr>pkix_RevokedCertificate.SerialNumber = 2, RevocationTime = 7\<rparr>]
   \<and> fst (revokeAll ref_env
             [leafCert, leafCert, leafCert\<lparr>x509_Certificate.SerialNumber := 3\<rparr>] rootCA world1) = 2
   \<and> length (revoked_entries (fst (snd (revokeAll ref_env
             [leafCert, leafCert, leafCert\<lparr>x509_Certificate.SerialNumber := 3\<rparr>] rootCA world1))))
       = 2"
proof -
  let ?r = "revokeCertificate ref_env leafCert rootCA world1"
  let ?xs = "[leafCert, leafCert, leafCert\<lparr>x509_Certificate.SerialNumber := 3\<rparr>]"
  let ?s = "revokeAll ref_env ?xs rootCA world1"
  note T = revokeCertificate_appends [OF ref_env_roundtrip,
    where x = leafCert and c = rootCA and w = world1]
  have e0: "revoked_entries rootCA = []" by (simp add: revoked_entries_def GoCRL_def rootCA_def)
  have new: "x509_Certificate.SerialNumber leafCert
      \<notin> pkix_RevokedCertificate.SerialNumber ` set (revoked_entries rootCA)"
    by (simp add: e0)
  have build: "RevokeCertificate ref_env (CommonName rootCA)
      (revoked_entries rootCA @
         [\<lparr>pkix_RevokedCertificate.SerialNumber = x509_Certificate.SerialNumber leafCert,
           RevocationTime = time_Now ref_env world1\<rparr>])
      (CAData.certificate (Data rootCA)) (CAData.privateKey (Data rootCA)) world1
      = ((''+11,+1111111;'', None), snd (snd ?r))"
    by code_simp
  have parse: "x509_ParseCRL ref_env ''+11,+1111111;''
      = (Some \<lparr>TBSCertList_RevokedCertificates =
                 [\<lparr>pkix_RevokedCertificate.SerialNumber = 2, RevocationTime = 7\<rparr>],
               crl_Raw = ''+11,+1111111;''\<rparr>, None)"
    by code_simp
  from T [where crlByte = "''+11,+1111111;''" and ?w1.0 = "snd (snd ?r)"] new build parse
  have ok: "fst ?r = None"
    by blast
  then have eq: "?r = (None, fst (snd ?r), snd (snd ?r))"
    by (simp add: prod_eq_iff)
  have now: "x509_Certificate.SerialNumber leafCert = 2" "time_Now ref_env world1 = 7"
    by (simp_all add: leafCert_def ref_env_def world1_def)
  from T [where ?c1.0 = "fst (snd ?r)" and ?w1.0 = "snd (snd ?r)"] eq
  have "revoked_entries (fst (snd ?r)) =
      revoked_entries rootCA @
         [\<lparr>pkix_RevokedCertificate.SerialNumber = x509_Certificate.SerialNumber leafCert,
           RevocationTime = time_Now ref_env world1\<rparr>]"
    by blast
  with e0 now have one: "revoked_entries (fst (snd ?r))
      = [\<lparr>pkix_RevokedCertificate.SerialNumber = 2, RevocationTime = 7\<rparr>]"
    by simp
  have n: "fst ?s = 2" by code_simp
  then have "?s = (2, fst (snd ?s), snd (snd ?s))" by (simp add: prod_eq_iff)
  with T [where xs = ?xs and n = 2 and ?c2.0 = "fst (snd ?s)" and ?w2.0 = "snd (snd ?s)"]
  have "\<exists>added. revoked_entries (fst (snd ?s)) = revoked_entries rootCA @ added
      \<and> length added = 2"
    by blast
  with e0 have two: "length (revoked_entries (fst (snd ?s))) = 2" by auto
  from e0 ok one n two show ?thesis by simp
qed

end
